theory Spec2Isabelle
  imports Complex_Main
begin

section \<open>Sun Moon Tracker: the tracker script over the real numbers\<close>

text \<open>
  The tracker script of the lens is embedded function by function.
  JavaScript numbers are modelled as real numbers: every arithmetic operation is exact,
  there is no rounding, no signed zero and no NaN. The constants are the decimal
  literals of the source, so \<open>DEG_TO_RAD\<close> is \<open>0.01745329251\<close> and not \<open>pi / 180\<close>.
  \<open>Math.PI\<close> is \<open>pi\<close>, \<open>Math.sin\<close>, \<open>Math.cos\<close>, \<open>Math.tan\<close> and \<open>Math.asin\<close> are
  \<open>sin\<close>, \<open>cos\<close>, \<open>tan\<close> and \<open>arcsin\<close>. A \<open>Date\<close> is its time value
  \<open>date.getTime()\<close>, an integer number of milliseconds since the Unix epoch.
\<close>

subsection \<open>Numeric helpers\<close>

definition Math_atan2 :: "real \<Rightarrow> real \<Rightarrow> real" where
  \<comment> \<open>\<open>Math.atan2(y, x)\<close>: the angle of the point \<open>(x, y)\<close>, in \<open>(-pi, pi]\<close>.\<close>
  "Math_atan2 y x =
     (if 0 < x then arctan (y / x)
      else if x < 0 then (if 0 \<le> y then arctan (y / x) + pi else arctan (y / x) - pi)
      else if 0 < y then pi / 2
      else if y < 0 then - (pi / 2)
      else 0)"

definition js_rem :: "real \<Rightarrow> real \<Rightarrow> real" where
  \<comment> \<open>The JavaScript operator \<open>a % b\<close>: the quotient is truncated towards zero, so the
      result has the sign of the dividend \<open>a\<close>.\<close>
  "js_rem a b = a - b * real_of_int (if 0 \<le> a / b then \<lfloor>a / b\<rfloor> else \<lceil>a / b\<rceil>)"

definition dayMs :: real where "dayMs = 1000 * 60 * 60 * 24"
definition J1970 :: real where "J1970 = 2440588"
definition J2000 :: real where "J2000 = 2451545"
definition DEG_TO_RAD :: real where "DEG_TO_RAD = 0.01745329251"
definition RAD_TO_DEG :: real where "RAD_TO_DEG = 57.2957795131"

definition degToRad :: "real \<Rightarrow> real" where
  "degToRad deg = deg * DEG_TO_RAD"

definition radToDeg :: "real \<Rightarrow> real" where
  "radToDeg rad = rad * RAD_TO_DEG"

definition toJulian :: "int \<Rightarrow> real" where
  "toJulian date = real_of_int date / dayMs - 0.5 + J1970"

definition toDays :: "int \<Rightarrow> real" where
  "toDays date = toJulian date - J2000"

definition getSiderealTime :: "real \<Rightarrow> real \<Rightarrow> real" where
  "getSiderealTime d lw = degToRad (280.16 + 360.9856235 * d) - lw"

record azalt =
  az_rad :: real
  alt_rad :: real

definition getAzAlt :: "real \<Rightarrow> real \<Rightarrow> real \<Rightarrow> azalt" where
  "getAzAlt H phi dec =
     \<lparr> az_rad = Math_atan2 (sin H) (cos H * sin phi - tan dec * cos phi),
       alt_rad = arcsin (sin phi * sin dec + cos phi * cos dec * cos H) \<rparr>"

definition remap :: "real \<Rightarrow> real \<Rightarrow> real \<Rightarrow> real \<Rightarrow> real \<Rightarrow> real" where
  \<comment> \<open>Called with all five arguments only, so the defaults of \<open>low2\<close> and \<open>high2\<close> are
      never taken.\<close>
  "remap v low1 high1 low2 high2 = low2 + (high2 - low2) * (v - low1) / (high1 - low1)"

subsection \<open>The ephemeris solver\<close>

record skypos =
  azimuth :: real
  altitude :: real
  distance :: real

definition earthTiltRad :: real where "earthTiltRad = degToRad 23.44"
definition AU_IN_CM :: real where "AU_IN_CM = 1.495978707 * 10 ^ 13"

definition getSolarMeanAnomaly :: "real \<Rightarrow> real" where
  "getSolarMeanAnomaly d = degToRad (357.5291 + 0.98560028 * d)"

definition getEquationOfCenter :: "real \<Rightarrow> real" where
  "getEquationOfCenter M =
     degToRad (1.9148 * sin M + 0.02 * sin (2 * M) + 0.0003 * sin (3 * M))"

definition getEclipticLongitude :: "real \<Rightarrow> real \<Rightarrow> real" where
  "getEclipticLongitude M C = M + C + degToRad 102.9372 + pi"

definition getDeclination :: "real \<Rightarrow> real" where
  "getDeclination L = arcsin (sin L * sin earthTiltRad)"

definition getRightAscension :: "real \<Rightarrow> real" where
  "getRightAscension L = Math_atan2 (sin L * cos earthTiltRad) (cos L)"

definition getHourAngle :: "real \<Rightarrow> real \<Rightarrow> real" where
  "getHourAngle siderealTime rightAscension = siderealTime - rightAscension"

definition getSunDistanceAU :: "real \<Rightarrow> real \<Rightarrow> real" where
  "getSunDistanceAU M C = 1.00014 - 0.01671 * cos M - 0.00014 * cos (2 * M + C)"

definition getSunPosition :: "int \<Rightarrow> real \<Rightarrow> real \<Rightarrow> skypos" where
  "getSunPosition date lat long =
     (let d = toDays date;
          lw = degToRad (- long);
          phi = degToRad lat;
          M = getSolarMeanAnomaly d;
          C = getEquationOfCenter M;
          L = getEclipticLongitude M C;
          dec = getDeclination L;
          ra = getRightAscension L;
          sidereal = getSiderealTime d lw;
          H = getHourAngle sidereal ra;
          dist = getSunDistanceAU M C;
          aa = getAzAlt H phi dec
      in \<lparr> azimuth = js_rem (radToDeg (az_rad aa) + 180) 360,
           altitude = radToDeg (alt_rad aa),
           distance = dist * AU_IN_CM \<rparr>)"

record mooncoords =
  m_ra :: real
  m_dec :: real
  m_dist :: real

definition getMoonCoords :: "real \<Rightarrow> mooncoords" where
  "getMoonCoords d =
     (let L = degToRad (218.316 + 13.176396 * d);
          M = degToRad (134.963 + 13.064993 * d);
          dist = 385001 - 20905 * cos M;
          l = L + degToRad (6.289 * sin M);
          b = degToRad (5.128 * sin (degToRad (93.272 + 13.229350 * d)))
      in \<lparr> m_ra = Math_atan2 (sin l * cos (degToRad 23.44) - tan b * sin (degToRad 23.44)) (cos l),
           m_dec = arcsin (sin b * cos (degToRad 23.44) + cos b * sin (degToRad 23.44) * sin l),
           m_dist = dist \<rparr>)"

definition getMoonPosition :: "int \<Rightarrow> real \<Rightarrow> real \<Rightarrow> skypos" where
  "getMoonPosition date lat long =
     (let d = toDays date;
          lw = degToRad (- long);
          phi = degToRad lat;
          moon = getMoonCoords d;
          sidereal = getSiderealTime d lw;
          H = sidereal - m_ra moon;
          aa = getAzAlt H phi (m_dec moon)
      in \<lparr> azimuth = js_rem (radToDeg (az_rad aa) + 180) 360,
           altitude = radToDeg (alt_rad aa),
           distance = m_dist moon * 100000 \<rparr>)"

subsection \<open>The reported angles in double arithmetic\<close>

text \<open>
  The solver above computes with real numbers. The numbers of the script are doubles:
  every product, sum and difference is rounded to a double, a decimal literal stands for
  the double nearest to it, and \<open>Math.sin\<close>, \<open>Math.cos\<close>, \<open>Math.tan\<close>, \<open>Math.asin\<close>
  and \<open>Math.atan2\<close> are approximations whose accuracy the language leaves to the host.
  \<open>Math.asin\<close> returns NaN for an argument above 1 or below -1, and NaN stays NaN in
  \<open>radToDeg\<close>. A \<open>machine\<close> is one such arithmetic: \<open>rnd\<close> rounds the exact result of an
  operation, and an angle that is NaN is \<open>None\<close>.
\<close>

record machine =
  rnd :: "real \<Rightarrow> real"
  m_sin :: "real \<Rightarrow> real"
  m_cos :: "real \<Rightarrow> real"
  m_tan :: "real \<Rightarrow> real"
  m_asin :: "real \<Rightarrow> real option"
  m_atan2 :: "real \<Rightarrow> real \<Rightarrow> real"

text \<open>
  \<open>getAzAlt\<close> and the two angles of the object that \<open>getSunPosition\<close> and
  \<open>getMoonPosition\<close> return, which are the same expressions in both:
  \<open>(radToDeg(azimuth) + 180) % 360\<close> and \<open>radToDeg(altitude)\<close>. \<open>H\<close>, \<open>phi\<close> and \<open>dec\<close>
  are the hour angle, the latitude in radians and the declination that the solver has
  computed, any three finite doubles. The remainder of two doubles is a double, so \<open>%\<close>
  does not round.
\<close>

record azalt_d =
  az_rad_d :: real
  alt_rad_d :: "real option"

definition getAzAlt_d :: "machine \<Rightarrow> real \<Rightarrow> real \<Rightarrow> real \<Rightarrow> azalt_d" where
  "getAzAlt_d m H phi dec =
     \<lparr> az_rad_d = m_atan2 m (m_sin m H)
                    (rnd m (rnd m (m_cos m H * m_sin m phi) - rnd m (m_tan m dec * m_cos m phi))),
       alt_rad_d = m_asin m (rnd m (rnd m (m_sin m phi * m_sin m dec) +
                                    rnd m (rnd m (m_cos m phi * m_cos m dec) * m_cos m H))) \<rparr>"

definition radToDeg_d :: "machine \<Rightarrow> real \<Rightarrow> real" where
  "radToDeg_d m rad = rnd m (rad * rnd m RAD_TO_DEG)"

record angles_d =
  azimuth_d :: real
  altitude_d :: "real option"

definition reportedAngles_d :: "machine \<Rightarrow> real \<Rightarrow> real \<Rightarrow> real \<Rightarrow> angles_d" where
  "reportedAngles_d m H phi dec =
     (let a = getAzAlt_d m H phi dec
      in \<lparr> azimuth_d = js_rem (rnd m (radToDeg_d m (az_rad_d a) + 180)) 360,
           altitude_d = (case alt_rad_d a of None \<Rightarrow> None
                         | Some al \<Rightarrow> Some (radToDeg_d m al)) \<rparr>)"

text \<open>
  What the language and the number format promise, and all that the ranges below rest
  on. Rounding to the nearest double changes a number of size at most 1000 by at most
  \<open>1 / 2 ^ 53\<close> of its size, or by far less than \<open>1 / 2 ^ 53\<close> where the result is
  subnormal: by at most \<open>(\<bar>x\<bar> + 1) / 2 ^ 53\<close> in either case. \<open>Math.atan2\<close> returns a number from \<open>- pi\<close> to \<open>pi\<close>. \<open>Math.asin\<close> returns
  NaN outside of the interval from -1 to 1 and a number from \<open>- pi / 2\<close> to \<open>pi / 2\<close>
  within it. Nothing is asked of \<open>Math.sin\<close>, \<open>Math.cos\<close> and \<open>Math.tan\<close>.
\<close>

definition conforming :: "machine \<Rightarrow> bool" where
  "conforming m =
     ((\<forall>x. \<bar>x\<bar> \<le> 1000 \<longrightarrow> \<bar>rnd m x - x\<bar> \<le> (\<bar>x\<bar> + 1) / 2 ^ 53) \<and>
      (\<forall>y x. \<bar>m_atan2 m y x\<bar> \<le> pi) \<and>
      (\<forall>v. case m_asin m v of None \<Rightarrow> 1 < \<bar>v\<bar> | Some a \<Rightarrow> \<bar>v\<bar> \<le> 1 \<and> \<bar>a\<bar> \<le> pi / 2))"

text \<open>
  Two machines: the arithmetic of the real numbers, in which the solver of the previous
  subsection computes; and one that errs upward by the full \<open>1 / 2 ^ 53\<close> in every
  operation.
\<close>

definition exactMachine :: machine where
  "exactMachine =
     \<lparr> rnd = (\<lambda>x. x), m_sin = sin, m_cos = cos, m_tan = tan,
       m_asin = (\<lambda>v. if \<bar>v\<bar> \<le> 1 then Some (arcsin v) else None),
       m_atan2 = Math_atan2 \<rparr>"

definition roundingUp :: machine where
  "roundingUp = exactMachine\<lparr>rnd := (\<lambda>x. x + \<bar>x\<bar> / 2 ^ 53)\<rparr>"

subsection \<open>Vectors and helpers\<close>

text \<open>
  \<open>vec3\<close> is the host's vector type. Its operations are the usual ones; \<open>normalize\<close>
  divides by the length (the host's result for the zero vector is not given by this
  repository; here the division by zero yields the zero vector).
\<close>

record vec3 =
  vx :: real
  vy :: real
  vz :: real

definition vec3_up :: vec3 where "vec3_up = \<lparr> vx = 0, vy = 1, vz = 0 \<rparr>"
definition vec3_right :: vec3 where "vec3_right = \<lparr> vx = 1, vy = 0, vz = 0 \<rparr>"

definition vdot :: "vec3 \<Rightarrow> vec3 \<Rightarrow> real" where
  "vdot a b = vx a * vx b + vy a * vy b + vz a * vz b"

definition vcross :: "vec3 \<Rightarrow> vec3 \<Rightarrow> vec3" where
  "vcross a b = \<lparr> vx = vy a * vz b - vz a * vy b,
                  vy = vz a * vx b - vx a * vz b,
                  vz = vx a * vy b - vy a * vx b \<rparr>"

definition vsub :: "vec3 \<Rightarrow> vec3 \<Rightarrow> vec3" where
  "vsub a b = \<lparr> vx = vx a - vx b, vy = vy a - vy b, vz = vz a - vz b \<rparr>"

definition uniformScale :: "vec3 \<Rightarrow> real \<Rightarrow> vec3" where
  "uniformScale a k = \<lparr> vx = vx a * k, vy = vy a * k, vz = vz a * k \<rparr>"

definition vnormalize :: "vec3 \<Rightarrow> vec3" where
  "vnormalize a = uniformScale a (1 / sqrt (vdot a a))"

definition rotateY :: "vec3 \<Rightarrow> real \<Rightarrow> vec3" where
  "rotateY v degrees =
     (let rad = degToRad degrees; c = cos rad; s = sin rad
      in \<lparr> vx = vx v * c - vz v * s, vy = vy v, vz = vx v * s + vz v * c \<rparr>)"

definition orbDirection :: "real \<Rightarrow> real \<Rightarrow> vec3" where
  "orbDirection azimuthDeg altitudeDeg =
     (let az = degToRad azimuthDeg; alt = degToRad altitudeDeg
      in \<lparr> vx = cos alt * sin az, vy = sin alt, vz = - cos alt * cos az \<rparr>)"

subsection \<open>The screen projection helper\<close>

text \<open>
  The host objects the script is configured with. \<open>camComponent\<close> is what
  \<open>tracking.getSceneObject().getComponent("Component.Camera")\<close> returns,
  \<open>invertedWorldTransform\<close> is \<open>getInvertedWorldTransform().multiplyPoint\<close> and
  \<open>worldSpaceToScreenSpace\<close> is the camera's projection, a point of the screen as a pair.
\<close>

record camera =
  worldSpaceToScreenSpace :: "vec3 \<Rightarrow> real \<times> real"

record devicetracking =
  camComponent :: "camera option"
  invertedWorldTransform :: "vec3 \<Rightarrow> vec3"

record script =
  deviceTracking :: "devicetracking option"
  specs :: bool

text \<open>
  What a callback can end with instead of a result: a string the script throws, a
  TypeError of the runtime (a property read on \<open>null\<close> or \<open>undefined\<close>), and
  \<open>NotANumber\<close> where the arithmetic would go on with \<open>undefined\<close> as an operand
  (NaN is no real number).
\<close>

datatype error = Thrown string | TypeError | NotANumber

record screeninfo =
  position :: "real \<times> real"
  isInFront :: bool

definition cam :: "script \<Rightarrow> camera option" where
  "cam sc = (case deviceTracking sc of None \<Rightarrow> None | Some t \<Rightarrow> camComponent t)"

definition worldToScreen :: "script \<Rightarrow> vec3 \<Rightarrow> error + screeninfo option" where
  \<comment> \<open>\<open>Inr None\<close> is the \<open>undefined\<close> of the bare \<open>return\<close>; reading the transform of a
      missing tracking component would raise a TypeError.\<close>
  "worldToScreen sc worldPosition =
     (case cam sc of
        None \<Rightarrow> Inr None
      | Some c \<Rightarrow>
          (case deviceTracking sc of
             None \<Rightarrow> Inl TypeError
           | Some t \<Rightarrow>
               (let zPos = invertedWorldTransform t worldPosition;
                    inFront = (vz zPos < 0);
                    p = worldSpaceToScreenSpace c worldPosition
                in Inr (Some \<lparr> position = ((fst p - 0.5) * 2, (1 - snd p - 0.5) * 2),
                               isInFront = inFront \<rparr>))))"


subsection \<open>The tracker state\<close>

text \<open>
  The module variables of the script are the fields of \<open>tracker\<close>; the two
  \<open>isSearching\<close> fields of \<open>OrbType\<close> are \<open>sunSearching\<close> and \<open>moonSearching\<close>.
  A variable that is \<open>undefined\<close> until first written is an \<open>option\<close>.
  \<open>frontCameraFlip\<close> is only ever tested for truth, so \<open>undefined\<close> is \<open>False\<close>.
  Every call of \<open>getOrb\<close> that passes the two checks creates a closure with its own
  \<open>foundPosition\<close> (\<open>var foundPosition\<close> stands inside \<open>getOrb\<close>): a \<open>request\<close>,
  numbered in the order of the calls. Its \<open>phase\<close> says which callback of the closure
  the host still holds: the \<open>initialWaitEvent\<close>, the two callbacks handed to
  \<open>getCurrentPosition\<close>, the \<open>awaitingHeading\<close> event, or none.
\<close>

definition initialWait :: real where "initialWait = 1"
definition headingLifetime :: real where "headingLifetime = 0.15"
definition flipHeadingOnSpectacles :: bool where "flipHeadingOnSpectacles = True"
definition awaitUpright :: bool where "awaitUpright = True"
definition uprightThreshold :: real where "uprightThreshold = 0.7"
definition tiltHeadingOffset :: real where "tiltHeadingOffset = 75"

definition title :: string where "title = ''[SunMoonTracker] ''"
definition noDeviceTracking :: string where
  "noDeviceTracking = ''No DeviceTracking component selected!''"
definition noCallback :: string where "noCallback = ''No onSuccess callback given!''"
definition alreadyActive :: string where
  "alreadyActive = ''Aborted because a search is already active.''"

datatype orb = Sun | Moon

fun orbName :: "orb \<Rightarrow> string" where
  "orbName Sun = ''Sun''"
| "orbName Moon = ''Moon''"

fun orbGetPosition :: "orb \<Rightarrow> int \<Rightarrow> real \<Rightarrow> real \<Rightarrow> skypos" where
  "orbGetPosition Sun = getSunPosition"
| "orbGetPosition Moon = getMoonPosition"

record geofix =
  latitude :: real
  longitude :: real
  fixAltitude :: real
  horizontalAccuracy :: real
  verticalAccuracy :: real

text \<open>
  The \<open>info\<close> object handed to \<open>onSuccess\<close>. \<open>direction\<close>, \<open>directionalRot\<close> and
  \<open>position\<close> are computed by the host's quaternion functions from \<open>deviceVec\<close>,
  \<open>fwdAngle\<close> and the distance; the record holds these inputs in their place.
\<close>

record trackinfo =
  infoAzimuth :: real
  infoAltitude :: real
  infoDistance :: real
  deviceVec :: vec3
  fwdAngle :: real
  userHeading :: real
  userLatitude :: real
  userLongitude :: real
  userAltitude :: real
  infoHorizontalAccuracy :: real
  infoVerticalAccuracy :: real
  date :: int
  name :: string

datatype phase = AwaitStart | AwaitFix | AwaitHeading | Resolved | Failed

record request =
  orbType :: orb
  hasOnFail :: bool
  foundPosition :: "geofix option"
  phase :: phase

record tracker =
  sunSearching :: bool
  moonSearching :: bool
  locationService :: bool
  foundHeading :: "real option"
  foundHeadingTime :: "real option"
  tilt :: "real option"
  frontCameraFlip :: bool
  requests :: "request list"

text \<open>
  What the host shows the script during one callback: \<open>getTime()\<close>, \<open>new Date()\<close> and
  the forward and up vectors of the tracking transform.
\<close>

record env =
  lensTime :: real
  wallClock :: int
  fwd :: vec3
  upv :: vec3

text \<open>What a callback of the script does to the outside: calls of the host and of the
  caller's callbacks. \<open>Rejected\<close> is the \<open>onFail\<close> of a call of \<open>getOrb\<close> that was refused.\<close>

datatype effect =
    CreateLocationService
  | GetCurrentPosition nat
  | OnSuccess nat trackinfo
  | OnFail nat string
  | Rejected string

definition init :: "script \<Rightarrow> error + tracker" where
  "init sc =
     (case deviceTracking sc of
        None \<Rightarrow> Inl (Thrown (title @ noDeviceTracking))
      | Some t \<Rightarrow>
          Inr \<lparr> sunSearching = False, moonSearching = False, locationService = False,
                foundHeading = None, foundHeadingTime = None, tilt = None,
                frontCameraFlip = False, requests = [] \<rparr>)"

fun isSearching :: "orb \<Rightarrow> tracker \<Rightarrow> bool" where
  "isSearching Sun st = sunSearching st"
| "isSearching Moon st = moonSearching st"

fun setSearching :: "orb \<Rightarrow> bool \<Rightarrow> tracker \<Rightarrow> tracker" where
  "setSearching Sun b st = st\<lparr>sunSearching := b\<rparr>"
| "setSearching Moon b st = st\<lparr>moonSearching := b\<rparr>"

definition updRequest :: "nat \<Rightarrow> (request \<Rightarrow> request) \<Rightarrow> tracker \<Rightarrow> tracker" where
  "updRequest rid f st = st\<lparr>requests := (requests st)[rid := f (requests st ! rid)]\<rparr>"

subsection \<open>The readiness gate\<close>

definition checkTimeStamp :: "env \<Rightarrow> real option \<Rightarrow> real \<Rightarrow> bool" where
  \<comment> \<open>With \<open>t\<close> still \<open>undefined\<close> the difference is NaN and the comparison is false.\<close>
  "checkTimeStamp e t threshold =
     (case t of None \<Rightarrow> False | Some t' \<Rightarrow> lensTime e - t' < threshold)"

definition offsetAngle :: "vec3 \<Rightarrow> vec3 \<Rightarrow> real" where
  "offsetAngle f upNorm =
     (let worldUp = (if \<bar>vdot f vec3_up\<bar> > 0.99 then vec3_right else vec3_up);
          refRight = vnormalize (vcross f worldUp);
          refUp = vnormalize (vcross refRight f);
          projectedUp = vnormalize (vsub upNorm (uniformScale f (vdot f upNorm)));
          dt = vdot refUp projectedUp;
          det = vdot refRight projectedUp
      in Math_atan2 det dt)"

definition checkTilt :: "env \<Rightarrow> tracker \<Rightarrow> bool \<times> tracker" where
  \<comment> \<open>The result is the truth of the returned value: \<open>true\<close> or \<open>undefined\<close>.\<close>
  "checkTilt e st =
     (if \<not> awaitUpright then (False, st)
      else let a = offsetAngle (fwd e) (upv e);
               st' = st\<lparr>tilt := Some a\<rparr>
           in (\<bar>a\<bar> > uprightThreshold, st'))"

definition isReady :: "env \<Rightarrow> tracker \<Rightarrow> bool \<times> tracker" where
  \<comment> \<open>\<open>foundHeading && checkTimeStamp(...) && !checkTilt()\<close>, left to right: a heading
      that is \<open>undefined\<close> or \<open>0\<close> is falsy, and \<open>checkTilt\<close> only runs (and stores the
      tilt) when the first two hold.\<close>
  "isReady e st =
     (case foundHeading st of
        None \<Rightarrow> (False, st)
      | Some h \<Rightarrow>
          if h = 0 then (False, st)
          else if \<not> checkTimeStamp e (foundHeadingTime st) headingLifetime then (False, st)
          else let (tilted, st') = checkTilt e st in (\<not> tilted, st'))"

subsection \<open>The orientation pipeline\<close>

definition workingHeading :: "script \<Rightarrow> bool \<Rightarrow> real option \<Rightarrow> real \<Rightarrow> real" where
  \<comment> \<open>The working copy of the heading: front camera, Spectacles, tilt offset. A tilt that
      is \<open>undefined\<close> or \<open>0\<close> is falsy.\<close>
  "workingHeading sc flip tlt h =
     (let h1 = (if flip then h * (- 1) else h);
          h2 = (if specs sc \<and> flipHeadingOnSpectacles then h1 + 180 else h1)
      in case tlt of
           None \<Rightarrow> h2
         | Some t \<Rightarrow>
             if t = 0 then h2
             else h2 - remap t (- uprightThreshold) uprightThreshold
                         ((- tiltHeadingOffset / 2) * uprightThreshold)
                         ((tiltHeadingOffset / 2) * uprightThreshold))"

definition interpretTrackingData ::
  "script \<Rightarrow> env \<Rightarrow> nat \<Rightarrow> tracker \<Rightarrow> error + (effect list \<times> tracker)" where
  "interpretTrackingData sc e rid st =
     (let r = requests st ! rid;
          st1 = setSearching (orbType r) False st
      in case foundHeading st1 of
           None \<Rightarrow> Inl NotANumber
         | Some h \<Rightarrow>
          (case foundPosition r of
             None \<Rightarrow> Inl TypeError
           | Some p \<Rightarrow>
               (let heading = workingHeading sc (frontCameraFlip st1) (tilt st1) h;
                    lat = latitude p;
                    long = longitude p;
                    alt = fixAltitude p;
                    orbSkyLocation = orbGetPosition (orbType r) (wallClock e) lat long;
                    az = azimuth orbSkyLocation;
                    al = altitude orbSkyLocation;
                    localDir = orbDirection (if frontCameraFlip st1 then 180 - az else az) al;
                    dv = rotateY localDir (- heading);
                    info = \<lparr> infoAzimuth = az, infoAltitude = al,
                             infoDistance = distance orbSkyLocation,
                             deviceVec = dv,
                             fwdAngle = Math_atan2 (vx (fwd e)) (vz (fwd e)),
                             userHeading = heading,
                             userLatitude = lat, userLongitude = long, userAltitude = alt,
                             infoHorizontalAccuracy = horizontalAccuracy p,
                             infoVerticalAccuracy = verticalAccuracy p,
                             date = wallClock e, name = orbName (orbType r) \<rparr>
                in Inr ([OnSuccess rid info], updRequest rid (\<lambda>q. q\<lparr>phase := Resolved\<rparr>) st1))))"


subsection \<open>Requests\<close>

definition onPositionFound ::
  "script \<Rightarrow> env \<Rightarrow> nat \<Rightarrow> geofix \<Rightarrow> tracker \<Rightarrow> error + (effect list \<times> tracker)" where
  "onPositionFound sc e rid p st =
     (let st1 = updRequest rid (\<lambda>q. q\<lparr>foundPosition := Some p\<rparr>) st;
          (ready, st2) = isReady e st1
      in if ready then interpretTrackingData sc e rid st2
         else Inr ([], updRequest rid (\<lambda>q. q\<lparr>phase := AwaitHeading\<rparr>) st2))"

definition requestUserPosition ::
  "script \<Rightarrow> env \<Rightarrow> nat \<Rightarrow> tracker \<Rightarrow> error + (effect list \<times> tracker)" where
  \<comment> \<open>\<open>foundPosition\<close> is the variable of this request's own closure.\<close>
  "requestUserPosition sc e rid st =
     (case foundPosition (requests st ! rid) of
        Some p \<Rightarrow> onPositionFound sc e rid p st
      | None \<Rightarrow> Inr ([GetCurrentPosition rid], updRequest rid (\<lambda>q. q\<lparr>phase := AwaitFix\<rparr>) st))"

definition getOrb ::
  "script \<Rightarrow> env \<Rightarrow> orb \<Rightarrow> bool \<Rightarrow> bool \<Rightarrow> tracker \<Rightarrow> error + (effect list \<times> tracker)" where
  \<comment> \<open>\<open>onSuccessIsFunction\<close> is \<open>typeof onSuccess == "function"\<close>, \<open>onFail\<close> is the truth
      of the argument \<open>onFail\<close>.\<close>
  "getOrb sc e orbT onSuccessIsFunction onFail st =
     (if \<not> onSuccessIsFunction then Inl (Thrown (title @ noCallback))
      else if isSearching orbT st then Inr ((if onFail then [Rejected alreadyActive] else []), st)
      else
        (let st1 = setSearching orbT True st;
             created = (if \<not> locationService st1 then [CreateLocationService] else []);
             st2 = st1\<lparr>locationService := True\<rparr>;
             rid = length (requests st2);
             st3 = st2\<lparr>requests := requests st2 @
                     [\<lparr> orbType = orbT, hasOnFail = onFail, foundPosition = None,
                        phase = AwaitStart \<rparr>]\<rparr>
         in if lensTime e > initialWait then
              (case requestUserPosition sc e rid st3 of
                 Inl err \<Rightarrow> Inl err
               | Inr (es, st4) \<Rightarrow> Inr (created @ es, st4))
            else Inr (created, st3)))"

definition getSun :: "script \<Rightarrow> env \<Rightarrow> bool \<Rightarrow> bool \<Rightarrow> tracker \<Rightarrow> error + (effect list \<times> tracker)" where
  "getSun sc e onSuccessIsFunction onFail st = getOrb sc e Sun onSuccessIsFunction onFail st"

definition getMoon :: "script \<Rightarrow> env \<Rightarrow> bool \<Rightarrow> bool \<Rightarrow> tracker \<Rightarrow> error + (effect list \<times> tracker)" where
  "getMoon sc e onSuccessIsFunction onFail st = getOrb sc e Moon onSuccessIsFunction onFail st"

subsection \<open>The callbacks the host runs\<close>

text \<open>
  One \<open>UpdateEvent\<close> runs the update callback each pending request has bound: the
  \<open>initialWaitEvent\<close> of a request that awaits the start, the \<open>awaitingHeading\<close> event
  of a request that awaits a heading. \<open>onUpdateAll\<close> runs them in the order it is given,
  and \<open>step\<close> gives it the order of the requests. The host has an order of its own
  (an \<open>awaitingHeading\<close> event is created only when the fix arrives), so within one
  frame it may run the callbacks of two requests in the other order; the lemmas about a
  frame below hold for every order.
\<close>

definition onUpdate ::
  "script \<Rightarrow> env \<Rightarrow> nat \<Rightarrow> tracker \<Rightarrow> error + (effect list \<times> tracker)" where
  "onUpdate sc e rid st =
     (case phase (requests st ! rid) of
        AwaitStart \<Rightarrow>
          if lensTime e > initialWait then requestUserPosition sc e rid st else Inr ([], st)
      | AwaitHeading \<Rightarrow>
          (let (ready, st1) = isReady e st
           in if ready then interpretTrackingData sc e rid st1 else Inr ([], st1))
      | _ \<Rightarrow> Inr ([], st))"

fun onUpdateAll ::
  "script \<Rightarrow> env \<Rightarrow> nat list \<Rightarrow> tracker \<Rightarrow> error + (effect list \<times> tracker)" where
  "onUpdateAll sc e [] st = Inr ([], st)"
| "onUpdateAll sc e (rid # rids) st =
     (case onUpdate sc e rid st of
        Inl err \<Rightarrow> Inl err
      | Inr (es, st1) \<Rightarrow>
          (case onUpdateAll sc e rids st1 of
             Inl err \<Rightarrow> Inl err
           | Inr (es', st2) \<Rightarrow> Inr (es @ es', st2)))"

text \<open>
  The events of the host. \<open>HeadingUpdate h\<close> is the orientation subscription delivering a
  sample whose north aligned heading is \<open>h\<close>; it exists once the location service is
  created. \<open>PositionFound\<close> and \<open>PositionError\<close> are the two callbacks of
  \<open>getCurrentPosition\<close>, which the one-shot provider calls for a request that awaits its
  fix. The camera events are bound unless the device is Spectacles.
\<close>

datatype event =
    CallGetOrb orb bool bool
  | HeadingUpdate real
  | UpdateEvent
  | PositionFound nat geofix
  | PositionError nat string
  | CameraFrontEvent
  | CameraBackEvent

fun step :: "script \<Rightarrow> event \<Rightarrow> env \<Rightarrow> tracker \<Rightarrow> error + (effect list \<times> tracker)" where
  "step sc (CallGetOrb orbT onSuccessIsFunction onFail) e st =
     getOrb sc e orbT onSuccessIsFunction onFail st"
| "step sc (HeadingUpdate h) e st =
     (if locationService st
      then Inr ([], st\<lparr>foundHeading := Some h, foundHeadingTime := Some (lensTime e)\<rparr>)
      else Inr ([], st))"
| "step sc UpdateEvent e st = onUpdateAll sc e [0 ..< length (requests st)] st"
| "step sc (PositionFound rid p) e st =
     (if rid < length (requests st) \<and> phase (requests st ! rid) = AwaitFix
      then onPositionFound sc e rid p st
      else Inr ([], st))"
| "step sc (PositionError rid err) e st =
     (if rid < length (requests st) \<and> phase (requests st ! rid) = AwaitFix
      then Inr ((if hasOnFail (requests st ! rid) then [OnFail rid err] else []),
                updRequest rid (\<lambda>q. q\<lparr>phase := Failed\<rparr>) st)
      else Inr ([], st))"
| "step sc CameraFrontEvent e st =
     (if \<not> specs sc then Inr ([], st\<lparr>frontCameraFlip := True\<rparr>) else Inr ([], st))"
| "step sc CameraBackEvent e st =
     (if \<not> specs sc then Inr ([], st\<lparr>frontCameraFlip := False\<rparr>) else Inr ([], st))"

text \<open>
  A run of the host: the events in their order, each with what the host shows the
  script during it (\<open>getTime()\<close> has one value during a callback). An exception ends
  the run.
\<close>

fun run :: "script \<Rightarrow> (event \<times> env) list \<Rightarrow> tracker \<Rightarrow> error + (effect list \<times> tracker)" where
  "run sc [] st = Inr ([], st)"
| "run sc ((ev, e) # rest) st =
     (case step sc ev e st of
        Inl err \<Rightarrow> Inl err
      | Inr (es, st1) \<Rightarrow>
          (case run sc rest st1 of
             Inl err \<Rightarrow> Inl err
           | Inr (es', st2) \<Rightarrow> Inr (es @ es', st2)))"


text \<open>
  A history of the host in which a call that throws is over and the host goes on: the
  usage error of \<open>getOrb\<close> is thrown before anything is written, so the state after it
  is the state before it. The result lists what each event did, an exception or its
  effects, and the state at the end.
\<close>

fun runHost ::
  "script \<Rightarrow> (event \<times> env) list \<Rightarrow> tracker \<Rightarrow> (error + effect list) list \<times> tracker" where
  "runHost sc [] st = ([], st)"
| "runHost sc ((ev, e) # rest) st =
     (case step sc ev e st of
        Inl err \<Rightarrow> (let (os, st2) = runHost sc rest st in (Inl err # os, st2))
      | Inr (es, st1) \<Rightarrow> (let (os, st2) = runHost sc rest st1 in (Inr es # os, st2)))"

subsection \<open>Predicates and sample inputs of the properties\<close>

definition headingFreshAndUsed :: "script \<Rightarrow> env \<Rightarrow> tracker \<Rightarrow> trackinfo \<Rightarrow> bool" where
  \<comment> \<open>The stored heading is younger than \<open>headingLifetime\<close>, and the heading of \<open>info\<close>
      is the working copy of it, offset by the tilt measured in this callback.\<close>
  "headingFreshAndUsed sc e st info =
     (\<exists>h t. foundHeading st = Some h \<and> foundHeadingTime st = Some t \<and>
        lensTime e - t < headingLifetime \<and>
        userHeading info =
          workingHeading sc (frontCameraFlip st) (Some (offsetAngle (fwd e) (upv e))) h)"

definition sameHeading :: "tracker \<Rightarrow> tracker \<Rightarrow> bool" where
  "sameHeading st st' =
     (foundHeading st' = foundHeading st \<and> foundHeadingTime st' = foundHeadingTime st \<and>
      frontCameraFlip st' = frontCameraFlip st)"

definition stamped :: "(event \<times> env) set \<Rightarrow> tracker \<Rightarrow> bool" where
  \<comment> \<open>The stored heading and its time stamp are those of one heading update among \<open>S\<close>.\<close>
  "stamped S st =
     ((foundHeading st = None \<and> foundHeadingTime st = None) \<or>
      (\<exists>h ec. (HeadingUpdate h, ec) \<in> S \<and> foundHeading st = Some h \<and>
         foundHeadingTime st = Some (lensTime ec)))"

text \<open>
  A request whose \<open>awaitingHeading\<close> event is bound has its fix: the event is only
  bound in \<open>onPositionFound\<close>, after \<open>foundPosition\<close> was written.
\<close>

definition fixKept :: "tracker \<Rightarrow> bool" where
  "fixKept st =
     (\<forall>i < length (requests st).
        phase (requests st ! i) = AwaitHeading \<longrightarrow> foundPosition (requests st ! i) \<noteq> None)"


text \<open>A phone with a tracking component and no camera on its scene object, and the same
  with a camera that projects every point to \<open>(0.25, 0.75)\<close>.\<close>

definition sc0 :: script where
  "sc0 = \<lparr> deviceTracking = Some \<lparr> camComponent = None, invertedWorldTransform = (\<lambda>v. v) \<rparr>,
           specs = False \<rparr>"

definition sc_cam :: script where
  "sc_cam = \<lparr> deviceTracking =
               Some \<lparr> camComponent = Some \<lparr> worldSpaceToScreenSpace = (\<lambda>v. (0.25, 0.75)) \<rparr>,
                      invertedWorldTransform = (\<lambda>v. v) \<rparr>,
             specs = False \<rparr>"

definition st_init :: tracker where
  "st_init = \<lparr> sunSearching = False, moonSearching = False, locationService = False,
               foundHeading = None, foundHeadingTime = None, tilt = None,
               frontCameraFlip = False, requests = [] \<rparr>"

text \<open>The device held upright and looking along the z axis, at lens time \<open>t\<close>, on
  2000-01-01 12:00 UTC.\<close>

definition env_at :: "real \<Rightarrow> env" where
  "env_at t = \<lparr> lensTime = t, wallClock = 946728000000,
               fwd = \<lparr> vx = 0, vy = 0, vz = 1 \<rparr>, upv = \<lparr> vx = 0, vy = 1, vz = 0 \<rparr> \<rparr>"

definition p0 :: geofix where
  "p0 = \<lparr> latitude = 52, longitude = 5, fixAltitude = 0, horizontalAccuracy = 10,
          verticalAccuracy = 10 \<rparr>"

text \<open>The state while the first Sun request awaits its fix, with a heading of 0 or 90
  degrees captured at lens time 2.\<close>

definition st_searching :: "real \<Rightarrow> tracker" where
  "st_searching h =
     \<lparr> sunSearching = True, moonSearching = False, locationService = True,
       foundHeading = Some h, foundHeadingTime = Some 2, tilt = None,
       frontCameraFlip = False,
       requests = [\<lparr> orbType = Sun, hasOnFail = True, foundPosition = None, phase = AwaitFix \<rparr>] \<rparr>"

definition st_polling :: "real \<Rightarrow> tracker" where
  "st_polling h =
     \<lparr> sunSearching = True, moonSearching = False, locationService = True,
       foundHeading = Some h, foundHeadingTime = Some 2, tilt = None,
       frontCameraFlip = False,
       requests = [\<lparr> orbType = Sun, hasOnFail = True, foundPosition = Some p0,
                    phase = AwaitHeading \<rparr>] \<rparr>"

subsection \<open>The reference algorithm of the specification\<close>

text \<open>
  The solver as the specification words it, for comparison with the code. The formulas
  give every angle in degrees; \<open>dg\<close> is the number of radians in one degree, \<open>half\<close> is
  the half turn (180 degrees) added to the ecliptic longitude of the Sun, and \<open>rd\<close> is the
  number of degrees in one radian. Read as mathematics these are \<open>pi / 180\<close>, \<open>pi\<close> and
  \<open>180 / pi\<close>.
\<close>

definition sun_reference :: "real \<Rightarrow> real \<Rightarrow> real \<Rightarrow> int \<Rightarrow> real \<Rightarrow> real \<Rightarrow> skypos" where
  "sun_reference dg half rd unixMillis lat long =
     (let d = real_of_int unixMillis / 86400000 - 0.5 + 2440588 - 2451545;
          M = 357.5291 * dg + 0.98560028 * dg * d;
          C = 1.9148 * dg * sin M + 0.02 * dg * sin (2 * M) + 0.0003 * dg * sin (3 * M);
          L = M + C + 102.9372 * dg + half;
          decl = arcsin (sin L * sin (23.44 * dg));
          rasc = Math_atan2 (sin L * cos (23.44 * dg)) (cos L);
          theta = 280.16 * dg + 360.9856235 * dg * d - (- (long * dg));
          H = theta - rasc;
          phi = lat * dg;
          alt = arcsin (sin phi * sin decl + cos phi * cos decl * cos H);
          az = Math_atan2 (sin H) (cos H * sin phi - tan decl * cos phi)
      in \<lparr> azimuth = js_rem (az * rd + 180) 360,
           altitude = alt * rd,
           distance = (1.00014 - 0.01671 * cos M - 0.00014 * cos (2 * M + C)) *
                        (1.495978707 * 10 ^ 13) \<rparr>)"

definition moon_reference :: "real \<Rightarrow> real \<Rightarrow> int \<Rightarrow> real \<Rightarrow> real \<Rightarrow> skypos" where
  "moon_reference dg rd unixMillis lat long =
     (let d = real_of_int unixMillis / 86400000 - 0.5 + 2440588 - 2451545;
          L = 218.316 * dg + 13.176396 * dg * d;
          M = 134.963 * dg + 13.064993 * dg * d;
          km = 385001 - 20905 * cos M;
          l = L + 6.289 * dg * sin M;
          b = 5.128 * dg * sin (93.272 * dg + 13.229350 * dg * d);
          e = 23.44 * dg;
          rasc = Math_atan2 (sin l * cos e - tan b * sin e) (cos l);
          decl = arcsin (sin b * cos e + cos b * sin e * sin l);
          theta = 280.16 * dg + 360.9856235 * dg * d - (- (long * dg));
          H = theta - rasc;
          phi = lat * dg;
          alt = arcsin (sin phi * sin decl + cos phi * cos decl * cos H);
          az = Math_atan2 (sin H) (cos H * sin phi - tan decl * cos phi)
      in \<lparr> azimuth = js_rem (az * rd + 180) 360,
           altitude = alt * rd,
           distance = km * 100000 \<rparr>)"


text \<open>The series in the Sun's equation of center, in degrees.\<close>

definition centerSeries :: "real \<Rightarrow> real" where
  "centerSeries M = 1.9148 * sin M + 0.02 * sin (2 * M) + 0.0003 * sin (3 * M)"


text \<open>
  Sample instants and places: noon of 2000-01-01 UTC, where the day count is 0; the
  place that has the Sun in the zenith at that instant (its latitude is the Sun's
  declination, its longitude makes the hour angle a full turn, \<open>2 * pi\<close>); and a place \<open>pi / 6\<close> radians south of it whose longitude makes
  the hour angle \<open>1 / 10 ^ 14\<close> radians less than a full turn, so that the Sun stands
  almost exactly due north.
\<close>

definition noon2000 :: int where "noon2000 = 946728000000"

definition sunL0 :: real where
  "sunL0 = getEclipticLongitude (getSolarMeanAnomaly 0) (getEquationOfCenter (getSolarMeanAnomaly 0))"


definition zenith_long :: real where
  "zenith_long = (getRightAscension sunL0 - degToRad 280.16 + 2 * pi) / DEG_TO_RAD"




section \<open>Properties of the requests and the readiness gate\<close>

lemma init_sc0: "init sc0 = Inr st_init"
  by (simp add: init_def sc0_def st_init_def)

lemma offsetAngle_upright:
  "offsetAngle \<lparr> vx = 0, vy = 0, vz = 1 \<rparr> \<lparr> vx = 0, vy = 1, vz = 0 \<rparr> = 0"
  by (simp add: offsetAngle_def vdot_def vcross_def vsub_def uniformScale_def vnormalize_def
      vec3_up_def vec3_right_def Math_atan2_def Let_def)

lemma run_to_searching:
  "run sc0 [(CallGetOrb Sun True True, env_at 2), (HeadingUpdate h, env_at 2)] st_init =
     Inr ([CreateLocationService, GetCurrentPosition 0], st_searching h)"
  by (simp add: getOrb_def requestUserPosition_def updRequest_def st_init_def env_at_def
      initialWait_def st_searching_def Let_def)

text \<open>
  Claim C3. The fix is not cached across requests: \<open>foundPosition\<close> is a variable of
  each call of \<open>getOrb\<close>, so the test \<open>if(foundPosition)\<close> in \<open>requestUserPosition\<close>
  never finds a fix and every accepted request calls \<open>getCurrentPosition\<close>. Here the Sun
  is requested, a heading and the fix arrive, the request resolves, and the Sun is
  requested again: the location provider is asked a second time.
\<close>

theorem fix_fetched_again_for_second_request:
  "\<exists>info st.
     run sc0 [(CallGetOrb Sun True True, env_at 2), (HeadingUpdate 90, env_at 2),
              (PositionFound 0 p0, env_at 2.1), (CallGetOrb Sun True True, env_at 3)] st_init =
       Inr ([CreateLocationService, GetCurrentPosition 0, OnSuccess 0 info,
             GetCurrentPosition 1], st)"
  by (simp add: getOrb_def requestUserPosition_def updRequest_def st_init_def env_at_def
      initialWait_def Let_def onPositionFound_def isReady_def checkTimeStamp_def
      headingLifetime_def checkTilt_def awaitUpright_def offsetAngle_upright
      uprightThreshold_def interpretTrackingData_def)

text \<open>The success path does return the kind to idle.\<close>

lemma interpretTrackingData_clears_searching:
  assumes "interpretTrackingData sc e rid st = Inr (es, st')"
  shows "\<not> isSearching (orbType (requests st ! rid)) st'"
  using assms
  by (cases "orbType (requests st ! rid)")
     (auto simp: interpretTrackingData_def Let_def updRequest_def split: option.splits)

text \<open>
  Claim C4. A failure of the location fetch does not return the kind to idle: the error
  callback only calls \<open>onFail\<close>, and \<open>isSearching\<close> stays set. Here the Sun is
  requested, the provider reports an error, and the next Sun request is refused as
  already active.
\<close>

theorem searching_stays_set_after_location_error:
  "\<exists>st.
     run sc0 [(CallGetOrb Sun True True, env_at 2), (PositionError 0 ''denied'', env_at 2.5),
              (CallGetOrb Sun True True, env_at 3)] st_init =
       Inr ([CreateLocationService, GetCurrentPosition 0, OnFail 0 ''denied'',
             Rejected alreadyActive], st) \<and>
     sunSearching st"
  by (simp add: getOrb_def requestUserPosition_def updRequest_def st_init_def env_at_def
      initialWait_def Let_def)


subsection \<open>The heading a resolved request consumes\<close>

lemma sameHeading_refl: "sameHeading st st"
  by (simp add: sameHeading_def)

lemma sameHeading_trans: "sameHeading a b \<Longrightarrow> sameHeading b c \<Longrightarrow> sameHeading a c"
  by (simp add: sameHeading_def)

lemma sameHeading_setSearching: "sameHeading st (setSearching k b st)"
  by (cases k) (simp_all add: sameHeading_def)

lemma sameHeading_updRequest: "sameHeading st (updRequest rid f st)"
  by (simp add: sameHeading_def updRequest_def)

lemma fresh_sameHeading:
  "sameHeading st st1 \<Longrightarrow> headingFreshAndUsed sc e st1 info \<Longrightarrow> headingFreshAndUsed sc e st info"
  by (simp add: sameHeading_def headingFreshAndUsed_def)

lemma isReady_sameHeading: "isReady e st = (r, st') \<Longrightarrow> sameHeading st st'"
  by (auto simp: isReady_def checkTilt_def sameHeading_def Let_def split: option.splits if_splits)

lemma isReady_fresh:
  "isReady e st = (True, st') \<Longrightarrow>
   \<exists>h t. foundHeading st = Some h \<and> h \<noteq> 0 \<and> foundHeadingTime st = Some t \<and>
         lensTime e - t < headingLifetime"
  by (auto simp: isReady_def checkTimeStamp_def split: option.splits if_splits prod.splits)

lemma isReady_tilt:
  "isReady e st = (True, st') \<Longrightarrow> tilt st' = Some (offsetAngle (fwd e) (upv e))"
  by (auto simp: isReady_def checkTilt_def awaitUpright_def Let_def
      split: option.splits if_splits)

lemma interpret_uses_heading:
  assumes "interpretTrackingData sc e rid st = Inr (es, st')"
  shows "sameHeading st st' \<and>
         (\<exists>info h. es = [OnSuccess rid info] \<and> foundHeading st = Some h \<and>
            userHeading info = workingHeading sc (frontCameraFlip st) (tilt st) h)"
proof -
  let ?k = "orbType (requests st ! rid)"
  have flds: "foundHeading (setSearching ?k False st) = foundHeading st"
    "frontCameraFlip (setSearching ?k False st) = frontCameraFlip st"
    "tilt (setSearching ?k False st) = tilt st"
    "foundHeadingTime (setSearching ?k False st) = foundHeadingTime st"
    by (cases ?k; simp)+
  from assms show ?thesis
    by (auto simp: interpretTrackingData_def Let_def flds sameHeading_def updRequest_def
        split: option.splits)
qed

lemma gated_interpret:
  assumes r: "isReady e st = (True, st1)"
    and i: "interpretTrackingData sc e rid st1 = Inr (es, st')"
  shows "sameHeading st st' \<and> (\<forall>r' info. OnSuccess r' info \<in> set es \<longrightarrow> headingFreshAndUsed sc e st info)"
proof -
  have s1: "sameHeading st st1" using r by (rule isReady_sameHeading)
  from interpret_uses_heading[OF i] obtain info h where
    s2: "sameHeading st1 st'" and es: "es = [OnSuccess rid info]"
    and h: "foundHeading st1 = Some h"
    and u: "userHeading info = workingHeading sc (frontCameraFlip st1) (tilt st1) h"
    by blast
  from isReady_fresh[OF r] obtain h' t where
    f: "foundHeading st = Some h'" "foundHeadingTime st = Some t" "lensTime e - t < headingLifetime"
    by blast
  have "headingFreshAndUsed sc e st info"
    using s1 h u f isReady_tilt[OF r] by (auto simp: headingFreshAndUsed_def sameHeading_def)
  then show ?thesis using s1 s2 es by (auto intro: sameHeading_trans)
qed

lemma onPositionFound_fresh:
  assumes "onPositionFound sc e rid p st = Inr (es, st')"
  shows "sameHeading st st' \<and> (\<forall>r' info. OnSuccess r' info \<in> set es \<longrightarrow> headingFreshAndUsed sc e st info)"
proof -
  let ?st1 = "updRequest rid (\<lambda>q. q\<lparr>foundPosition := Some p\<rparr>) st"
  obtain r st2 where rd: "isReady e ?st1 = (r, st2)" by (cases "isReady e ?st1")
  have s0: "sameHeading st ?st1" by (rule sameHeading_updRequest)
  show ?thesis
  proof (cases r)
    case True
    with assms rd have i: "interpretTrackingData sc e rid st2 = Inr (es, st')"
      by (simp add: onPositionFound_def Let_def)
    from rd True have rd': "isReady e ?st1 = (True, st2)" by simp
    from gated_interpret[OF rd' i]
    show ?thesis using s0 by (blast intro: sameHeading_trans fresh_sameHeading)
  next
    case False
    with assms rd have "es = []" "st' = updRequest rid (\<lambda>q. q\<lparr>phase := AwaitHeading\<rparr>) st2"
      by (simp_all add: onPositionFound_def Let_def)
    moreover have "sameHeading st st2"
      using s0 isReady_sameHeading[OF rd] by (rule sameHeading_trans)
    moreover have "sameHeading st2 (updRequest rid (\<lambda>q. q\<lparr>phase := AwaitHeading\<rparr>) st2)"
      by (rule sameHeading_updRequest)
    ultimately show ?thesis
      by (auto intro: sameHeading_trans)
  qed
qed

lemma requestUserPosition_fresh:
  assumes "requestUserPosition sc e rid st = Inr (es, st')"
  shows "sameHeading st st' \<and> (\<forall>r' info. OnSuccess r' info \<in> set es \<longrightarrow> headingFreshAndUsed sc e st info)"
  using assms onPositionFound_fresh sameHeading_updRequest
  by (auto simp: requestUserPosition_def split: option.splits)

lemma onUpdate_fresh:
  assumes "onUpdate sc e rid st = Inr (es, st')"
  shows "sameHeading st st' \<and> (\<forall>r' info. OnSuccess r' info \<in> set es \<longrightarrow> headingFreshAndUsed sc e st info)"
proof (cases "phase (requests st ! rid)")
  case AwaitStart
  with assms show ?thesis
    using requestUserPosition_fresh[of sc e rid st es st']
    by (auto simp: onUpdate_def sameHeading_refl split: if_splits)
next
  case AwaitHeading
  obtain r st1 where rd: "isReady e st = (r, st1)" by (cases "isReady e st")
  show ?thesis
  proof (cases r)
    case True
    with assms rd AwaitHeading have "interpretTrackingData sc e rid st1 = Inr (es, st')"
      by (simp add: onUpdate_def)
    then have i: "interpretTrackingData sc e rid st1 = Inr (es, st')" .
    from rd True have rd': "isReady e st = (True, st1)" by simp
    from gated_interpret[OF rd' i] show ?thesis .
  next
    case False
    with assms rd AwaitHeading have "es = []" "st' = st1" by (simp_all add: onUpdate_def)
    then show ?thesis using isReady_sameHeading[OF rd] by simp
  qed
qed (use assms in \<open>auto simp: onUpdate_def sameHeading_refl\<close>)

lemma onUpdateAll_fresh:
  "onUpdateAll sc e rids st = Inr (es, st') \<Longrightarrow>
   sameHeading st st' \<and> (\<forall>r' info. OnSuccess r' info \<in> set es \<longrightarrow> headingFreshAndUsed sc e st info)"
proof (induction rids arbitrary: st es)
  case Nil
  then show ?case by (simp add: sameHeading_refl)
next
  case (Cons rid rids)
  from Cons.prems obtain es1 st1 es2 where
    a: "onUpdate sc e rid st = Inr (es1, st1)" and
    b: "onUpdateAll sc e rids st1 = Inr (es2, st')" and
    c: "es = es1 @ es2"
    by (auto split: sum.splits prod.splits)
  from onUpdate_fresh[OF a] Cons.IH[OF b] c show ?case
    by (auto intro: sameHeading_trans fresh_sameHeading)
qed

lemma getOrb_fresh:
  assumes "getOrb sc e k f g st = Inr (es, st')"
  shows "\<forall>r' info. OnSuccess r' info \<in> set es \<longrightarrow> headingFreshAndUsed sc e st info"
proof (cases "f \<and> \<not> isSearching k st \<and> lensTime e > initialWait")
  case False
  with assms show ?thesis
    by (auto simp: getOrb_def Let_def split: if_splits)
next
  case True
  let ?st3 = "(setSearching k True st)\<lparr>locationService := True,
      requests := requests (setSearching k True st) @
         [\<lparr> orbType = k, hasOnFail = g, foundPosition = None, phase = AwaitStart \<rparr>]\<rparr>"
  have s: "sameHeading st ?st3" by (cases k) (simp_all add: sameHeading_def)
  from assms True obtain es2 where
    r: "requestUserPosition sc e (length (requests st)) ?st3 = Inr (es2, st')"
    and es: "set es \<subseteq> insert CreateLocationService (set es2)"
    by (cases k) (auto simp: getOrb_def Let_def split: if_splits sum.splits)
  from requestUserPosition_fresh[OF r] s es show ?thesis
    by (auto intro: fresh_sameHeading)
qed

lemma step_success_fresh:
  assumes "step sc ev e st = Inr (es, st')" and "OnSuccess rid info \<in> set es"
  shows "headingFreshAndUsed sc e st info"
proof (cases ev)
  case (CallGetOrb k f g)
  with assms getOrb_fresh show ?thesis by auto
next
  case UpdateEvent
  with assms onUpdateAll_fresh show ?thesis by auto
next
  case (PositionFound r p)
  with assms onPositionFound_fresh show ?thesis by (auto split: if_splits)
qed (use assms in \<open>auto split: if_splits\<close>)

lemma stamped_mono: "stamped S st \<Longrightarrow> S \<subseteq> T \<Longrightarrow> stamped T st"
  by (auto simp: stamped_def)

lemma stamped_sameHeading: "stamped S st \<Longrightarrow> sameHeading st st' \<Longrightarrow> stamped S st'"
  by (auto simp: stamped_def sameHeading_def)

lemma getOrb_sameHeading:
  assumes "getOrb sc e k f g st = Inr (es, st')"
  shows "sameHeading st st'"
proof (cases "f \<and> \<not> isSearching k st \<and> lensTime e > initialWait")
  case False
  with assms show ?thesis
    by (cases k) (auto simp: getOrb_def Let_def sameHeading_def split: if_splits)
next
  case True
  let ?st3 = "(setSearching k True st)\<lparr>locationService := True,
      requests := requests (setSearching k True st) @
         [\<lparr> orbType = k, hasOnFail = g, foundPosition = None, phase = AwaitStart \<rparr>]\<rparr>"
  have s: "sameHeading st ?st3" by (cases k) (simp_all add: sameHeading_def)
  from assms True obtain es2 where
    r: "requestUserPosition sc e (length (requests st)) ?st3 = Inr (es2, st')"
    by (cases k) (auto simp: getOrb_def Let_def split: if_splits sum.splits)
  from requestUserPosition_fresh[OF r] s show ?thesis
    by (auto intro: sameHeading_trans)
qed

lemma step_heading:
  assumes "step sc ev e st = Inr (es, st')"
  shows "(\<exists>h. ev = HeadingUpdate h \<and> locationService st \<and> foundHeading st' = Some h \<and>
            foundHeadingTime st' = Some (lensTime e)) \<or>
         (foundHeading st' = foundHeading st \<and> foundHeadingTime st' = foundHeadingTime st)"
proof (cases ev)
  case (CallGetOrb k f g)
  with assms getOrb_sameHeading[of sc e k f g st es st'] show ?thesis
    by (simp add: sameHeading_def)
next
  case UpdateEvent
  with assms onUpdateAll_fresh[of sc e _ st es st'] show ?thesis
    by (simp add: sameHeading_def)
next
  case (PositionFound r p)
  with assms onPositionFound_fresh[of sc e r p st es st'] show ?thesis
    by (auto simp: sameHeading_def split: if_splits)
next
  case (PositionError r m)
  with assms show ?thesis by (auto simp: updRequest_def split: if_splits)
qed (use assms in \<open>auto split: if_splits\<close>)

lemma step_stamped:
  assumes "step sc ev e st = Inr (es, st')" and "stamped S st"
  shows "stamped (insert (ev, e) S) st'"
  using step_heading[OF assms(1)] assms(2)
  by (auto simp: stamped_def)

lemma init_stamped: "init sc = Inr st0 \<Longrightarrow> stamped {} st0"
  by (auto simp: init_def stamped_def split: option.splits)

lemma runHost_stamped:
  "runHost sc evs st0 = (os, st) \<Longrightarrow> stamped S st0 \<Longrightarrow> stamped (S \<union> set evs) st"
proof (induction evs arbitrary: st0 os S)
  case Nil
  then show ?case by simp
next
  case (Cons x evs)
  obtain ev e where x: "x = (ev, e)" by (cases x)
  show ?case
  proof (cases "step sc ev e st0")
    case (Inl err)
    with Cons.prems(1) x obtain os2 where b: "runHost sc evs st0 = (os2, st)"
      by (auto split: prod.splits)
    have "stamped (insert (ev, e) S) st0"
      using Cons.prems(2) by (rule stamped_mono) auto
    from Cons.IH[OF b this] x show ?thesis by simp
  next
    case (Inr y)
    obtain es1 st1 where y: "y = (es1, st1)" by (cases y)
    with Inr Cons.prems(1) x obtain os2 where b: "runHost sc evs st1 = (os2, st)"
      by (auto split: prod.splits)
    from Inr y have a: "step sc ev e st0 = Inr (es1, st1)" by simp
    from step_stamped[OF a Cons.prems(2)] have "stamped (insert (ev, e) S) st1" .
    from Cons.IH[OF b this] x show ?thesis by simp
  qed
qed


text \<open>
  The only exception a history from \<open>init\<close> meets is the usage error of a call of
  \<open>getOrb\<close> without a callback, which is thrown before anything is written: every other
  callback returns. So \<open>runHost\<close>, which goes on from the state before the call that
  threw, is the whole behaviour of the host.
\<close>

lemma requests_setSearching [simp]: "requests (setSearching k b st) = requests st"
  by (cases k) simp_all

lemma foundHeading_setSearching [simp]: "foundHeading (setSearching k b st) = foundHeading st"
  by (cases k) simp_all

lemma fixKept_setSearching [simp]: "fixKept (setSearching k b st) = fixKept st"
  by (simp add: fixKept_def)

lemma isReady_requests: "isReady e st = (r, st') \<Longrightarrow> requests st' = requests st"
  by (auto simp: isReady_def checkTilt_def Let_def split: option.splits if_splits)

lemma interpretTrackingData_returns:
  assumes "foundHeading st = Some h" "foundPosition (requests st ! rid) = Some p"
    "rid < length (requests st)" "fixKept st"
  shows "\<exists>es st'. interpretTrackingData sc e rid st = Inr (es, st') \<and> fixKept st' \<and>
           length (requests st') = length (requests st)"
  using assms
  by (auto simp: interpretTrackingData_def Let_def updRequest_def fixKept_def nth_list_update)

lemma onPositionFound_returns:
  assumes "rid < length (requests st)" "fixKept st"
  shows "\<exists>es st'. onPositionFound sc e rid p st = Inr (es, st') \<and> fixKept st' \<and>
           length (requests st') = length (requests st)"
proof -
  let ?st1 = "updRequest rid (\<lambda>q. q\<lparr>foundPosition := Some p\<rparr>) st"
  obtain r st2 where rd: "isReady e ?st1 = (r, st2)" by (cases "isReady e ?st1")
  have rq: "requests st2 = requests ?st1" using rd by (rule isReady_requests)
  have k1: "fixKept ?st1" using assms by (auto simp: fixKept_def updRequest_def nth_list_update)
  have k2: "fixKept st2" using k1 rq by (simp add: fixKept_def)
  have len: "length (requests st2) = length (requests st)" using rq by (simp add: updRequest_def)
  have fp: "foundPosition (requests st2 ! rid) = Some p"
    using assms(1) rq by (simp add: updRequest_def)
  show ?thesis
  proof (cases r)
    case True
    with rd have "isReady e ?st1 = (True, st2)" by simp
    from isReady_fresh[OF this] isReady_sameHeading[OF rd]
    obtain h where "foundHeading st2 = Some h" by (auto simp: sameHeading_def)
    from interpretTrackingData_returns[OF this fp _ k2, of sc e] assms(1) len rd True
    show ?thesis by (auto simp: onPositionFound_def)
  next
    case False
    with rd k2 len fp assms(1) show ?thesis
      by (auto simp: onPositionFound_def fixKept_def updRequest_def nth_list_update)
  qed
qed

lemma requestUserPosition_returns:
  assumes "rid < length (requests st)" "fixKept st"
  shows "\<exists>es st'. requestUserPosition sc e rid st = Inr (es, st') \<and> fixKept st' \<and>
           length (requests st') = length (requests st)"
proof (cases "foundPosition (requests st ! rid)")
  case None
  with assms show ?thesis
    by (auto simp: requestUserPosition_def fixKept_def updRequest_def nth_list_update)
next
  case (Some p)
  with onPositionFound_returns[OF assms, of sc e p] show ?thesis
    by (simp add: requestUserPosition_def)
qed

lemma onUpdate_returns:
  assumes "rid < length (requests st)" "fixKept st"
  shows "\<exists>es st'. onUpdate sc e rid st = Inr (es, st') \<and> fixKept st' \<and>
           length (requests st') = length (requests st)"
proof (cases "phase (requests st ! rid)")
  case AwaitStart
  with requestUserPosition_returns[OF assms, of sc e] assms show ?thesis
    by (auto simp: onUpdate_def)
next
  case AwaitHeading
  obtain r st1 where rd: "isReady e st = (r, st1)" by (cases "isReady e st")
  have rq: "requests st1 = requests st" using rd by (rule isReady_requests)
  have k1: "fixKept st1" using assms(2) rq by (simp add: fixKept_def)
  show ?thesis
  proof (cases r)
    case True
    with rd have "isReady e st = (True, st1)" by simp
    from isReady_fresh[OF this] isReady_sameHeading[OF rd]
    obtain h where h: "foundHeading st1 = Some h" by (auto simp: sameHeading_def)
    from assms AwaitHeading obtain p where "foundPosition (requests st1 ! rid) = Some p"
      by (auto simp: fixKept_def rq)
    from interpretTrackingData_returns[OF h this _ k1, of sc e] assms(1) rq rd True AwaitHeading
    show ?thesis by (auto simp: onUpdate_def)
  next
    case False
    with rd k1 rq AwaitHeading show ?thesis by (auto simp: onUpdate_def)
  qed
qed (use assms in \<open>auto simp: onUpdate_def\<close>)

lemma onUpdateAll_returns:
  "\<forall>rid \<in> set rids. rid < length (requests st) \<Longrightarrow> fixKept st \<Longrightarrow>
   \<exists>es st'. onUpdateAll sc e rids st = Inr (es, st') \<and> fixKept st' \<and>
     length (requests st') = length (requests st)"
proof (induction rids arbitrary: st)
  case Nil
  then show ?case by simp
next
  case (Cons rid rids)
  from Cons.prems have "rid < length (requests st)" by simp
  from onUpdate_returns[OF this Cons.prems(2), of sc e] obtain es1 st1 where
    a: "onUpdate sc e rid st = Inr (es1, st1)" and k: "fixKept st1"
    and l: "length (requests st1) = length (requests st)" by blast
  from Cons.prems(1) l have "\<forall>r \<in> set rids. r < length (requests st1)" by simp
  from Cons.IH[OF this k] obtain es2 st2 where
    b: "onUpdateAll sc e rids st1 = Inr (es2, st2)" and k2: "fixKept st2"
    and l2: "length (requests st2) = length (requests st1)" by blast
  from a b k2 l l2 show ?case by simp
qed

lemma getOrb_returns:
  assumes "fixKept st"
  shows "(if f then \<exists>es st'. getOrb sc e k f g st = Inr (es, st') \<and> fixKept st'
          else getOrb sc e k f g st = Inl (Thrown (title @ noCallback)))"
proof (cases "f \<and> \<not> isSearching k st")
  case False
  with assms show ?thesis by (auto simp: getOrb_def)
next
  case True
  let ?st3 = "(setSearching k True st)\<lparr>locationService := True,
      requests := requests (setSearching k True st) @
         [\<lparr> orbType = k, hasOnFail = g, foundPosition = None, phase = AwaitStart \<rparr>]\<rparr>"
  have k3: "fixKept ?st3" using assms by (auto simp: fixKept_def nth_append)
  have l3: "length (requests st) < length (requests ?st3)" by simp
  from requestUserPosition_returns[OF l3 k3, of sc e] obtain es2 st4 where
    "requestUserPosition sc e (length (requests st)) ?st3 = Inr (es2, st4)" "fixKept st4"
    by blast
  with True k3 show ?thesis
    by (auto simp: getOrb_def Let_def)
qed

lemma step_returns:
  assumes "fixKept st"
  shows "(\<exists>es st'. step sc ev e st = Inr (es, st') \<and> fixKept st') \<or>
         ((\<exists>k g. ev = CallGetOrb k False g) \<and> step sc ev e st = Inl (Thrown (title @ noCallback)))"
proof (cases ev)
  case (CallGetOrb k f g)
  with getOrb_returns[OF assms, of f sc e k g] show ?thesis by (cases f) auto
next
  case (HeadingUpdate h)
  with assms show ?thesis by (auto simp: fixKept_def)
next
  case UpdateEvent
  with onUpdateAll_returns[of "[0 ..< length (requests st)]" st sc e] assms show ?thesis
    by auto
next
  case (PositionFound rid p)
  with onPositionFound_returns[of rid st sc e p] assms show ?thesis by auto
next
  case (PositionError rid m)
  with assms show ?thesis by (auto simp: fixKept_def updRequest_def nth_list_update)
next
  case CameraFrontEvent
  with assms show ?thesis by (auto simp: fixKept_def)
next
  case CameraBackEvent
  with assms show ?thesis by (auto simp: fixKept_def)
qed

lemma runHost_throws_only_usage_errors:
  "fixKept st0 \<Longrightarrow> runHost sc evs st0 = (os, st) \<Longrightarrow>
   fixKept st \<and> (\<forall>err. Inl err \<in> set os \<longrightarrow> err = Thrown (title @ noCallback))"
proof (induction evs arbitrary: st0 os)
  case Nil
  then show ?case by simp
next
  case (Cons x evs)
  obtain ev e where x: "x = (ev, e)" by (cases x)
  from step_returns[OF Cons.prems(1), of sc ev e]
  consider es st1 where "step sc ev e st0 = Inr (es, st1)" "fixKept st1"
    | "step sc ev e st0 = Inl (Thrown (title @ noCallback))" by blast
  then show ?case
  proof cases
    case 1
    with Cons.prems(2) x obtain os2 where b: "runHost sc evs st1 = (os2, st)" "os = Inr es # os2"
      by (auto split: prod.splits)
    from Cons.IH[OF 1(2) b(1)] b(2) show ?thesis by auto
  next
    case 2
    with Cons.prems(2) x obtain os2 where b: "runHost sc evs st0 = (os2, st)"
      "os = Inl (Thrown (title @ noCallback)) # os2"
      by (auto split: prod.splits)
    from Cons.IH[OF Cons.prems(1) b(1)] b(2) show ?thesis by auto
  qed
qed

lemma init_fixKept: "init sc = Inr st0 \<Longrightarrow> fixKept st0"
  by (auto simp: init_def fixKept_def split: option.splits)

text \<open>
  Claim C5. Take any history of the host since the script was loaded, calls that threw
  included, and any callback after it that hands a result to \<open>onSuccess\<close>. Then the
  heading of that result is the working copy of the stored heading sample (with the
  camera flip as stored and the tilt measured in this callback), and that sample was
  stored by a heading update of the history whose lens time lies strictly less than
  \<open>headingLifetime\<close> (0.15 s) before the lens time of the callback. (\<open>getTime()\<close> has
  one value during a callback.)
\<close>

theorem resolved_heading_is_fresh:
  assumes i: "init sc = Inr st0"
    and r: "runHost sc evs st0 = (os, st)"
    and s: "step sc ev e st = Inr (es, st')"
    and o: "OnSuccess rid info \<in> set es"
  shows "\<exists>h ec. (HeadingUpdate h, ec) \<in> set evs \<and>
           lensTime e - lensTime ec < headingLifetime \<and>
           foundHeading st = Some h \<and>
           userHeading info =
             workingHeading sc (frontCameraFlip st) (Some (offsetAngle (fwd e) (upv e))) h"
proof -
  from runHost_stamped[OF r init_stamped[OF i]] have st: "stamped (set evs) st" by simp
  from step_success_fresh[OF s o] obtain h t where
    f: "foundHeading st = Some h" "foundHeadingTime st = Some t"
       "lensTime e - t < headingLifetime"
       "userHeading info =
          workingHeading sc (frontCameraFlip st) (Some (offsetAngle (fwd e) (upv e))) h"
    by (auto simp: headingFreshAndUsed_def)
  with st show ?thesis by (auto simp: stamped_def)
qed

text \<open>
  The history of the witness: a call without a callback throws, the Sun is requested,
  a heading of 90 degrees arrives at lens time 2, and the fix arrives at lens time 2.1.
  The result carries the heading 90 (back camera, no Spectacles, tilt 0).
\<close>

theorem resolved_heading_is_fresh_witness:
  "\<exists>es info st'.
     init sc0 = Inr st_init \<and>
     runHost sc0 [(CallGetOrb Moon False False, env_at 2), (CallGetOrb Sun True True, env_at 2),
                  (HeadingUpdate 90, env_at 2)] st_init =
       ([Inl (Thrown (title @ noCallback)), Inr [CreateLocationService, GetCurrentPosition 0],
         Inr []], st_searching 90) \<and>
     step sc0 (PositionFound 0 p0) (env_at 2.1) (st_searching 90) = Inr (es, st') \<and>
     OnSuccess 0 info \<in> set es \<and>
     (HeadingUpdate 90, env_at 2) \<in>
        set [(CallGetOrb Moon False False, env_at 2), (CallGetOrb Sun True True, env_at 2),
             (HeadingUpdate 90, env_at 2)] \<and>
     lensTime (env_at 2.1) - lensTime (env_at 2) < headingLifetime \<and>
     foundHeading (st_searching 90) = Some 90 \<and>
     userHeading info = 90"
proof -
  have r: "runHost sc0 [(CallGetOrb Moon False False, env_at 2),
                        (CallGetOrb Sun True True, env_at 2),
                        (HeadingUpdate 90, env_at 2)] st_init =
       ([Inl (Thrown (title @ noCallback)), Inr [CreateLocationService, GetCurrentPosition 0],
         Inr []], st_searching 90)"
    by (simp add: getOrb_def requestUserPosition_def updRequest_def st_init_def env_at_def
        initialWait_def st_searching_def Let_def)
  obtain es st' info where
    s: "step sc0 (PositionFound 0 p0) (env_at 2.1) (st_searching 90) = Inr (es, st')"
    and o: "OnSuccess 0 info \<in> set es"
    by (simp add: st_searching_def updRequest_def env_at_def Let_def onPositionFound_def
        isReady_def checkTimeStamp_def headingLifetime_def checkTilt_def awaitUpright_def
        offsetAngle_upright uprightThreshold_def interpretTrackingData_def)
  from resolved_heading_is_fresh[OF init_sc0 r s o] obtain h ec where
    m: "(HeadingUpdate h, ec) \<in>
          set [(CallGetOrb Moon False False, env_at 2), (CallGetOrb Sun True True, env_at 2),
               (HeadingUpdate 90, env_at 2)]"
    and f: "lensTime (env_at 2.1) - lensTime ec < headingLifetime"
    and h: "foundHeading (st_searching 90) = Some h"
    and u: "userHeading info =
              workingHeading sc0 (frontCameraFlip (st_searching 90))
                (Some (offsetAngle (fwd (env_at 2.1)) (upv (env_at 2.1)))) h"
    by blast
  from m have ec: "h = 90" "ec = env_at 2" by auto
  from u ec have "userHeading info = 90"
    by (simp add: workingHeading_def st_searching_def sc0_def env_at_def offsetAngle_upright)
  with r s o m f h ec init_sc0 show ?thesis by blast
qed

subsection \<open>A second request for a kind that is searching\<close>



lemma isSearching_setSearching [simp]:
  "isSearching k (setSearching k' b st) = (if k = k' then b else isSearching k st)"
  by (cases k; cases k') simp_all

lemma frontCameraFlip_setSearching [simp]:
  "frontCameraFlip (setSearching k b st) = frontCameraFlip st"
  by (cases k) simp_all

lemma tilt_setSearching [simp]: "tilt (setSearching k b st) = tilt st"
  by (cases k) simp_all
















subsection \<open>worldToScreen\<close>

text \<open>
  Claim C9. Without a camera \<open>worldToScreen\<close> returns \<open>undefined\<close>; with a camera it
  returns the camera's screen point \<open>(x, y)\<close> as \<open>((x - 0.5) * 2, (1 - y - 0.5) * 2)\<close>
  together with \<open>isInFront\<close>, which is true exactly when the \<open>z\<close> of the point under the
  inverted world transform of the tracking component is negative. It never throws.
\<close>

theorem worldToScreen_result:
  "(cam sc = None \<longrightarrow> worldToScreen sc wp = Inr None) \<and>
   (\<forall>c. cam sc = Some c \<longrightarrow>
      (\<exists>t. deviceTracking sc = Some t \<and>
         worldToScreen sc wp =
           Inr (Some \<lparr> position = ((fst (worldSpaceToScreenSpace c wp) - 0.5) * 2,
                                   (1 - snd (worldSpaceToScreenSpace c wp) - 0.5) * 2),
                       isInFront = (vz (invertedWorldTransform t wp) < 0) \<rparr>))) \<and>
   (\<forall>err. worldToScreen sc wp \<noteq> Inl err)"
  by (auto simp: worldToScreen_def cam_def Let_def split: option.splits)

theorem worldToScreen_result_witness:
  "cam sc0 = None \<and> worldToScreen sc0 \<lparr> vx = 1, vy = 2, vz = - 3 \<rparr> = Inr None \<and>
   cam sc_cam = Some \<lparr> worldSpaceToScreenSpace = (\<lambda>v. (0.25, 0.75)) \<rparr> \<and>
   worldToScreen sc_cam \<lparr> vx = 1, vy = 2, vz = - 3 \<rparr> =
     Inr (Some \<lparr> position = (- 0.5, - 0.5), isInFront = True \<rparr>)"
proof -
  have a: "cam sc0 = None" by (simp add: cam_def sc0_def)
  have b: "cam sc_cam = Some \<lparr> worldSpaceToScreenSpace = (\<lambda>v. (0.25, 0.75)) \<rparr>"
    by (simp add: cam_def sc_cam_def)
  from worldToScreen_result[of sc0 "\<lparr> vx = 1, vy = 2, vz = - 3 \<rparr>"] a
  have c: "worldToScreen sc0 \<lparr> vx = 1, vy = 2, vz = - 3 \<rparr> = Inr None" by simp
  from worldToScreen_result[of sc_cam "\<lparr> vx = 1, vy = 2, vz = - 3 \<rparr>"] b
  have d: "worldToScreen sc_cam \<lparr> vx = 1, vy = 2, vz = - 3 \<rparr> =
     Inr (Some \<lparr> position = (- 0.5, - 0.5), isInFront = True \<rparr>)"
    by (simp add: sc_cam_def)
  from a b c d show ?thesis by simp
qed

subsection \<open>A heading of exactly zero\<close>

text \<open>
  Claim C10. The gate tests the stored heading for truth. With a stored heading of
  exactly 0 it is not ready, however fresh the sample and whatever the tilt: a polling
  request stays as it is and a request whose fix arrives starts polling, neither calls
  \<open>onSuccess\<close>. With any other stored heading the gate is ready exactly when the sample
  is fresh and the device is upright.
\<close>

theorem zero_heading_is_never_ready:
  assumes "foundHeading st = Some h"
  shows "(if h = 0 then isReady e st = (False, st)
          else fst (isReady e st) =
                 (checkTimeStamp e (foundHeadingTime st) headingLifetime \<and>
                  \<not> fst (checkTilt e st))) \<and>
         (h = 0 \<and> phase (requests st ! rid) = AwaitHeading \<longrightarrow>
            onUpdate sc e rid st = Inr ([], st)) \<and>
         (h = 0 \<longrightarrow>
            onPositionFound sc e rid p st =
              Inr ([], updRequest rid (\<lambda>q. q\<lparr>phase := AwaitHeading\<rparr>)
                         (updRequest rid (\<lambda>q. q\<lparr>foundPosition := Some p\<rparr>) st)))"
  using assms
  by (auto simp: isReady_def onUpdate_def onPositionFound_def updRequest_def Let_def
      split: prod.splits)

theorem zero_heading_is_never_ready_witness:
  "foundHeading (st_polling 0) = Some 0 \<and>
   checkTimeStamp (env_at 2.05) (foundHeadingTime (st_polling 0)) headingLifetime \<and>
   \<not> fst (checkTilt (env_at 2.05) (st_polling 0)) \<and>
   isReady (env_at 2.05) (st_polling 0) = (False, st_polling 0) \<and>
   phase (requests (st_polling 0) ! 0) = AwaitHeading \<and>
   onUpdate sc0 (env_at 2.05) 0 (st_polling 0) = Inr ([], st_polling 0) \<and>
   onPositionFound sc0 (env_at 2.05) 0 p0 (st_polling 0) =
     Inr ([], updRequest 0 (\<lambda>q. q\<lparr>phase := AwaitHeading\<rparr>)
                (updRequest 0 (\<lambda>q. q\<lparr>foundPosition := Some p0\<rparr>) (st_polling 0))) \<and>
   foundHeading (st_polling 90) = Some 90 \<and>
   fst (isReady (env_at 2.05) (st_polling 90))"
proof -
  have a: "foundHeading (st_polling 0) = Some 0" by (simp add: st_polling_def)
  have b: "foundHeading (st_polling 90) = Some 90" by (simp add: st_polling_def)
  have c: "checkTimeStamp (env_at 2.05) (foundHeadingTime (st_polling h)) headingLifetime" for h
    by (simp add: checkTimeStamp_def st_polling_def env_at_def headingLifetime_def)
  have d: "\<not> fst (checkTilt (env_at 2.05) (st_polling h))" for h
    by (simp add: checkTilt_def awaitUpright_def env_at_def offsetAngle_upright
        uprightThreshold_def Let_def)
  have e: "phase (requests (st_polling 0) ! 0) = AwaitHeading" by (simp add: st_polling_def)
  from zero_heading_is_never_ready[OF a, of "env_at 2.05" 0 sc0 p0] e
  have f: "isReady (env_at 2.05) (st_polling 0) = (False, st_polling 0)"
          "onUpdate sc0 (env_at 2.05) 0 (st_polling 0) = Inr ([], st_polling 0)"
          "onPositionFound sc0 (env_at 2.05) 0 p0 (st_polling 0) =
             Inr ([], updRequest 0 (\<lambda>q. q\<lparr>phase := AwaitHeading\<rparr>)
                (updRequest 0 (\<lambda>q. q\<lparr>foundPosition := Some p0\<rparr>) (st_polling 0)))"
    by simp_all
  from zero_heading_is_never_ready[OF b, of "env_at 2.05"] c d
  have g: "fst (isReady (env_at 2.05) (st_polling 90))" by simp
  from a b c d e f g show ?thesis by simp
qed


section \<open>Properties of the ephemeris solver\<close>

subsection \<open>Bounds on pi\<close>

lemma arctan_partial_sums:
  fixes x :: real
  assumes "0 < x" "x \<le> 1"
  shows "(\<Sum>k<2 * n. (- 1) ^ k * (1 / real (k * 2 + 1) * x ^ (k * 2 + 1))) \<le> arctan x"
    and "arctan x \<le> (\<Sum>k<2 * n + 1. (- 1) ^ k * (1 / real (k * 2 + 1) * x ^ (k * 2 + 1)))"
proof -
  let ?a = "\<lambda>k. 1 / real (k * 2 + 1) * x ^ (k * 2 + 1)"
  have ax: "\<bar>x\<bar> \<le> 1" using assms by simp
  have pos: "0 < ?a 0" using assms by simp
  have "(\<Sum>i. (- 1) ^ i * ?a i) \<in> {\<Sum>i<2 * n. (- 1) ^ i * ?a i .. \<Sum>i<2 * n + 1. (- 1) ^ i * ?a i}"
    using summable_Leibniz(2)[OF zeroseq_arctan_series[OF ax] monoseq_arctan_series[OF ax]] pos
    by blast
  then show "(\<Sum>k<2 * n. (- 1) ^ k * ?a k) \<le> arctan x"
    and "arctan x \<le> (\<Sum>k<2 * n + 1. (- 1) ^ k * ?a k)"
    by (simp_all add: arctan_series[OF ax])
qed

lemma pi_lower: "3.1415926535897 < pi"
proof -
  have m: "pi = 16 * arctan (1 / 5) - 4 * arctan (1 / 239)" using machin by simp
  have a: "(\<Sum>k<2 * 5. (- 1) ^ k * (1 / real (k * 2 + 1) * (1 / 5) ^ (k * 2 + 1))) \<le> arctan (1 / 5 :: real)"
    by (rule arctan_partial_sums(1)) simp_all
  have b: "arctan (1 / 239 :: real) \<le> (\<Sum>k<2 * 1 + 1. (- 1) ^ k * (1 / real (k * 2 + 1) * (1 / 239) ^ (k * 2 + 1)))"
    by (rule arctan_partial_sums(2)) simp_all
  from a b show ?thesis
    unfolding m by (simp add: eval_nat_numeral)
qed

lemma pi_upper: "pi < 3.14159265359"
proof -
  have m: "pi = 16 * arctan (1 / 5) - 4 * arctan (1 / 239)" using machin by simp
  have a: "arctan (1 / 5 :: real) \<le> (\<Sum>k<2 * 4 + 1. (- 1) ^ k * (1 / real (k * 2 + 1) * (1 / 5) ^ (k * 2 + 1)))"
    by (rule arctan_partial_sums(2)) simp_all
  have b: "(\<Sum>k<2 * 2. (- 1) ^ k * (1 / real (k * 2 + 1) * (1 / 239) ^ (k * 2 + 1))) \<le> arctan (1 / 239 :: real)"
    by (rule arctan_partial_sums(1)) simp_all
  from a b show ?thesis
    unfolding m by (simp add: eval_nat_numeral)
qed


lemma pi_RAD_TO_DEG: "180 < pi * RAD_TO_DEG" "pi * RAD_TO_DEG < 180 + 1 / 10 ^ 10"
  using pi_lower pi_upper by (simp_all add: RAD_TO_DEG_def)

lemma pi_DEG_TO_RAD: "180 * DEG_TO_RAD < pi"
  using pi_lower by (simp add: DEG_TO_RAD_def)

subsection \<open>The ranges of the reported angles and distances\<close>

lemma Math_atan2_range: "- pi < Math_atan2 y x \<and> Math_atan2 y x \<le> pi"
proof -
  define a where "a = arctan (y / x)"
  have b: "- (pi / 2) < a" "a < pi / 2"
    unfolding a_def by (rule arctan_lbound, rule arctan_ubound)
  have p: "2 \<le> pi" by (rule pi_ge_two)
  consider "0 < x" | "x < 0" "0 \<le> y" | "x < 0" "y < 0" | "x = 0" "0 < y" | "x = 0" "y < 0"
    | "x = 0" "y = 0" by linarith
  then show ?thesis
  proof cases
    case 1
    then have "Math_atan2 y x = a" by (simp add: Math_atan2_def a_def)
    with b p show ?thesis by auto
  next
    case 2
    then have "y / x \<le> 0" by (simp add: divide_nonneg_neg)
    then have "a \<le> 0" by (simp add: a_def)
    moreover from 2 have "Math_atan2 y x = a + pi" by (simp add: Math_atan2_def a_def)
    ultimately show ?thesis using b p by auto
  next
    case 3
    then have "0 < y / x" by (simp add: divide_neg_neg)
    then have "0 < a" by (simp add: a_def)
    moreover from 3 have "Math_atan2 y x = a - pi" by (simp add: Math_atan2_def a_def)
    ultimately show ?thesis using b p by auto
  next
    case 4
    then have "Math_atan2 y x = pi / 2" by (simp add: Math_atan2_def)
    with p show ?thesis by auto
  next
    case 5
    then have "Math_atan2 y x = - (pi / 2)" by (simp add: Math_atan2_def)
    with p show ?thesis by auto
  next
    case 6
    then have "Math_atan2 y x = 0" by (simp add: Math_atan2_def)
    with p show ?thesis by auto
  qed
qed

lemma js_rem_360:
  assumes "- 360 < a" "a < 720"
  shows "js_rem a 360 = (if a < 360 then a else a - 360)"
proof -
  consider "a < 0" | "0 \<le> a" "a < 360" | "360 \<le> a" by linarith
  then show ?thesis
  proof cases
    case 1
    with assms have "\<lceil>a / 360\<rceil> = 0" by (simp add: ceiling_eq_iff)
    with 1 show ?thesis by (simp add: js_rem_def)
  next
    case 2
    then have "\<lfloor>a / 360\<rfloor> = 0" by (simp add: floor_eq_iff)
    with 2 show ?thesis by (simp add: js_rem_def)
  next
    case 3
    with assms have "\<lfloor>a / 360\<rfloor> = 1" by (simp add: floor_eq_iff)
    with 3 show ?thesis by (simp add: js_rem_def)
  qed
qed

lemma reported_azimuth_range:
  "- (1 / 10 ^ 10) < js_rem (radToDeg (Math_atan2 y x) + 180) 360 \<and>
   js_rem (radToDeg (Math_atan2 y x) + 180) 360 < 360"
proof -
  let ?a = "Math_atan2 y x"
  let ?r = "radToDeg ?a + 180"
  have R: "0 < RAD_TO_DEG" by (simp add: RAD_TO_DEG_def)
  from Math_atan2_range[of y x] have a: "- pi < ?a" "?a \<le> pi" by simp_all
  have lo: "- (pi * RAD_TO_DEG) < ?a * RAD_TO_DEG"
    using mult_strict_right_mono[OF a(1) R] by simp
  have hi: "?a * RAD_TO_DEG \<le> pi * RAD_TO_DEG"
    using mult_right_mono[OF a(2)] R by simp
  from lo hi pi_RAD_TO_DEG have r: "- (1 / 10 ^ 10) < ?r" "?r \<le> 360 + 1 / 10 ^ 10"
    by (simp_all add: radToDeg_def)
  then have "- 360 < ?r" "?r < 720" by simp_all
  from js_rem_360[OF this] r show ?thesis by (auto split: if_splits)
qed

lemma altitude_argument_range:
  fixes p d h :: real
  shows "- 1 \<le> sin p * sin d + cos p * cos d * cos h \<and>
         sin p * sin d + cos p * cos d * cos h \<le> 1"
proof -
  define c where "c = cos h"
  define u where "u = cos (p - d)"
  define v where "v = cos (p + d)"
  have cb: "- 1 \<le> c" "c \<le> 1" and ub: "- 1 \<le> u" "u \<le> 1" and vb: "- 1 \<le> v" "v \<le> 1"
    by (simp_all add: c_def u_def v_def)
  have e: "sin p * sin d + cos p * cos d * cos h = ((1 + c) / 2) * u - ((1 - c) / 2) * v"
    by (simp add: c_def u_def v_def cos_diff cos_add field_simps)
  have c1: "0 \<le> (1 + c) / 2" and c2: "0 \<le> (1 - c) / 2" using cb by simp_all
  have u1: "((1 + c) / 2) * u \<le> ((1 + c) / 2) * 1"
    by (rule mult_left_mono[OF ub(2) c1])
  have l1: "((1 + c) / 2) * (- 1) \<le> ((1 + c) / 2) * u"
    by (rule mult_left_mono[OF ub(1) c1])
  have u2: "((1 - c) / 2) * v \<le> ((1 - c) / 2) * 1"
    by (rule mult_left_mono[OF vb(2) c2])
  have l2: "((1 - c) / 2) * (- 1) \<le> ((1 - c) / 2) * v"
    by (rule mult_left_mono[OF vb(1) c2])
  define A where "A = ((1 + c) / 2) * u"
  define B where "B = ((1 - c) / 2) * v"
  from u1 l1 have A: "A \<le> (1 + c) / 2" "- ((1 + c) / 2) \<le> A" by (simp_all add: A_def)
  from u2 l2 have B: "B \<le> (1 - c) / 2" "- ((1 - c) / 2) \<le> B" by (simp_all add: B_def)
  have "- 1 \<le> A - B \<and> A - B \<le> 1" using A B by (simp add: field_simps)
  then show ?thesis unfolding e A_def B_def .
qed

text \<open>The arguments of \<open>Math.asin\<close> in both solvers lie between -1 and 1, where
  \<open>arcsin\<close> is the inverse of the sine.\<close>

lemma sun_declination_argument:
  "- 1 \<le> sin L * sin earthTiltRad \<and> sin L * sin earthTiltRad \<le> 1"
  using altitude_argument_range[of L earthTiltRad "pi / 2"] by simp

lemma moon_declination_argument:
  fixes b e l :: real
  shows "- 1 \<le> sin b * cos e + cos b * sin e * sin l \<and>
         sin b * cos e + cos b * sin e * sin l \<le> 1"
  using altitude_argument_range[of b "pi / 2 - e" "pi / 2 - l"]
  by (simp add: sin_diff cos_diff)

lemma reported_altitude_range:
  fixes p d h :: real
  shows "\<bar>radToDeg (arcsin (sin p * sin d + cos p * cos d * cos h))\<bar> \<le> 90 + 1 / 10 ^ 10"
proof -
  let ?x = "sin p * sin d + cos p * cos d * cos h"
  define P where "P = pi * RAD_TO_DEG"
  have P: "P < 180 + 1 / 10 ^ 10" unfolding P_def by (rule pi_RAD_TO_DEG(2))
  from altitude_argument_range[of p d h] have "- 1 \<le> ?x" "?x \<le> 1" by simp_all
  from arcsin_bounded[OF this] have a: "\<bar>arcsin ?x\<bar> \<le> pi / 2" by linarith
  have "\<bar>arcsin ?x * RAD_TO_DEG\<bar> = \<bar>arcsin ?x\<bar> * RAD_TO_DEG"
    by (simp add: abs_mult RAD_TO_DEG_def)
  also have "\<dots> \<le> (pi / 2) * RAD_TO_DEG"
    by (rule mult_right_mono[OF a]) (simp add: RAD_TO_DEG_def)
  also have "\<dots> = P / 2" by (simp add: P_def)
  also have "\<dots> \<le> 90 + 1 / 10 ^ 10" using P by simp
  finally show ?thesis by (simp add: radToDeg_def)
qed

text \<open>
  In the arithmetic of the real numbers, for every instant, latitude and longitude the
  azimuth of either solver lies above \<open>- 1 / 10 ^ 10\<close> and below 360, and the altitude
  lies within \<open>1 / 10 ^ 10\<close> of the interval from -90 to 90.
\<close>

lemma exact_angles_range:
  "- (1 / 10 ^ 10) < azimuth (getSunPosition t la lo) \<and> azimuth (getSunPosition t la lo) < 360 \<and>
   \<bar>altitude (getSunPosition t la lo)\<bar> \<le> 90 + 1 / 10 ^ 10 \<and>
   - (1 / 10 ^ 10) < azimuth (getMoonPosition t la lo) \<and> azimuth (getMoonPosition t la lo) < 360 \<and>
   \<bar>altitude (getMoonPosition t la lo)\<bar> \<le> 90 + 1 / 10 ^ 10"
  using reported_azimuth_range reported_altitude_range
  by (simp add: getSunPosition_def getMoonPosition_def getAzAlt_def Let_def)





lemma abs_arcsin_le:
  fixes v :: real
  assumes "\<bar>v\<bar> \<le> 1"
  shows "\<bar>arcsin v\<bar> \<le> pi / 2"
proof -
  from assms have "- 1 \<le> v" "v \<le> 1" by simp_all
  from arcsin_bounded[OF this] show ?thesis by linarith
qed

lemma abs_arcsin_le2:
  fixes v :: real
  shows "\<bar>v\<bar> \<le> 1 \<Longrightarrow> \<bar>arcsin v\<bar> * 2 \<le> pi"
  using abs_arcsin_le[of v] by simp

lemma abs_Math_atan2_le: "\<bar>Math_atan2 y x\<bar> \<le> pi"
  using Math_atan2_range[of y x] by linarith


lemma conforming_roundingUp: "conforming roundingUp"
proof -
  have "\<bar>x\<bar> / 2 ^ 53 \<le> (\<bar>x\<bar> + 1) / 2 ^ 53" for x :: real
    by (rule divide_right_mono) simp_all
  then show ?thesis
    by (simp add: conforming_def roundingUp_def exactMachine_def abs_Math_atan2_le abs_arcsin_le2)
qed

text \<open>
  The angles of the real solver are those of the exact machine, for the hour angle,
  latitude and declination that the solver computes.
\<close>

lemma exact_sun_angles:
  fixes t la lo
  defines "M \<equiv> getSolarMeanAnomaly (toDays t)"
  defines "L \<equiv> getEclipticLongitude M (getEquationOfCenter M)"
  defines "r \<equiv> reportedAngles_d exactMachine
     (getHourAngle (getSiderealTime (toDays t) (degToRad (- lo))) (getRightAscension L))
     (degToRad la) (getDeclination L)"
  shows "azimuth_d r = azimuth (getSunPosition t la lo) \<and>
         altitude_d r = Some (altitude (getSunPosition t la lo))"
  unfolding r_def L_def M_def
  using altitude_argument_range
  by (simp add: getSunPosition_def Let_def reportedAngles_d_def getAzAlt_d_def exactMachine_def
      radToDeg_d_def getAzAlt_def radToDeg_def abs_le_iff)

lemma exact_moon_angles:
  fixes t la lo
  defines "c \<equiv> getMoonCoords (toDays t)"
  defines "r \<equiv> reportedAngles_d exactMachine
     (getSiderealTime (toDays t) (degToRad (- lo)) - m_ra c) (degToRad la) (m_dec c)"
  shows "azimuth_d r = azimuth (getMoonPosition t la lo) \<and>
         altitude_d r = Some (altitude (getMoonPosition t la lo))"
  unfolding r_def c_def
  using altitude_argument_range
  by (simp add: getMoonPosition_def Let_def reportedAngles_d_def getAzAlt_d_def exactMachine_def
      radToDeg_d_def getAzAlt_def radToDeg_def abs_le_iff)



text \<open>
  The promises leave room for NaN: the machine that errs upward in every operation
  hands \<open>Math.asin\<close> a number above 1 for an hour angle, latitude and declination of 0.
  (Rounding to nearest returns \<open>1 * 1\<close> as it is, so this machine is not that of a host;
  it shows that the bound on the rounding error does not keep the argument within 1.)
\<close>

lemma altitude_may_be_NaN:
  "conforming roundingUp \<and> altitude_d (reportedAngles_d roundingUp 0 0 0) = None"
proof -
  have "altitude_d (reportedAngles_d roundingUp 0 0 0) = None"
    by (simp add: reportedAngles_d_def getAzAlt_d_def roundingUp_def exactMachine_def Let_def)
  with conforming_roundingUp show ?thesis by simp
qed


lemma sun_distance_AU_range:
  "0.98329 \<le> getSunDistanceAU M C \<and> getSunDistanceAU M C \<le> 1.01699"
proof -
  define a where "a = cos M"
  define b where "b = cos (2 * M + C)"
  have ab: "- 1 \<le> a" "a \<le> 1" "- 1 \<le> b" "b \<le> 1" by (simp_all add: a_def b_def)
  have "getSunDistanceAU M C = 1.00014 - 0.01671 * a - 0.00014 * b"
    by (simp add: getSunDistanceAU_def a_def b_def)
  with ab show ?thesis by simp
qed

lemma moon_dist_range:
  "364096 \<le> m_dist (getMoonCoords d) \<and> m_dist (getMoonCoords d) \<le> 405906"
proof -
  define a where "a = cos (degToRad (134.963 + 13.064993 * d))"
  have ab: "- 1 \<le> a" "a \<le> 1" by (simp_all add: a_def)
  have "m_dist (getMoonCoords d) = 385001 - 20905 * a"
    by (simp add: getMoonCoords_def Let_def a_def)
  with ab show ?thesis by simp
qed

text \<open>
  Claim C8, as amended. For every instant, latitude and longitude both reported
  distances are positive; the Sun's lies between \<open>1.47 * 10 ^ 13\<close> and
  \<open>1.522 * 10 ^ 13\<close> cm, and the Moon's between \<open>3.64096 * 10 ^ 10\<close> and
  \<open>4.05906 * 10 ^ 10\<close> cm (364096 to 405906 km, times 100000).
\<close>

theorem reported_distance_range:
  "0 < distance (getSunPosition t la lo) \<and>
   1.47 * 10 ^ 13 \<le> distance (getSunPosition t la lo) \<and>
   distance (getSunPosition t la lo) \<le> 1.522 * 10 ^ 13 \<and>
   0 < distance (getMoonPosition t la lo) \<and>
   3.64096 * 10 ^ 10 \<le> distance (getMoonPosition t la lo) \<and>
   distance (getMoonPosition t la lo) \<le> 4.05906 * 10 ^ 10"
proof -
  let ?M = "getSolarMeanAnomaly (toDays t)"
  let ?C = "getEquationOfCenter ?M"
  have s: "distance (getSunPosition t la lo) = getSunDistanceAU ?M ?C * AU_IN_CM"
    by (simp add: getSunPosition_def Let_def)
  have m: "distance (getMoonPosition t la lo) = m_dist (getMoonCoords (toDays t)) * 100000"
    by (simp add: getMoonPosition_def Let_def)
  from sun_distance_AU_range[of ?M ?C] moon_dist_range[of "toDays t"]
  show ?thesis unfolding s m AU_IN_CM_def by simp
qed

text \<open>
  Claim C8 as stated fails for the Moon, whose distance it puts between
  \<open>3.56 * 10 ^ 7\<close> and \<open>4.07 * 10 ^ 7\<close> cm: at noon of 2000-01-01 UTC, latitude 0,
  longitude 0, the reported distance is more than a thousand times \<open>3.56 * 10 ^ 7\<close> cm.
\<close>

theorem moon_distance_outside_claimed_range:
  "\<not> (3.56 * 10 ^ 7 \<le> distance (getMoonPosition 946728000000 0 0) \<and>
      distance (getMoonPosition 946728000000 0 0) \<le> 4.07 * 10 ^ 7) \<and>
   1000 * (3.56 * 10 ^ 7) < distance (getMoonPosition 946728000000 0 0)"
proof -
  have m: "distance (getMoonPosition 946728000000 0 0) = m_dist (getMoonCoords (toDays 946728000000)) * 100000"
    by (simp add: getMoonPosition_def Let_def)
  from moon_dist_range[of "toDays 946728000000"]
  show ?thesis unfolding m by simp
qed

subsection \<open>The Sun in the zenith and due north\<close>








lemma earthTilt_sin: "0 < sin earthTiltRad \<and> sin earthTiltRad < 1"
proof -
  have e: "0 < earthTiltRad" "earthTiltRad < 1"
    by (simp_all add: earthTiltRad_def degToRad_def DEG_TO_RAD_def)
  have p: "2 \<le> pi" by (rule pi_ge_two)
  have "0 < sin earthTiltRad" by (rule sin_gt_zero) (use e p in linarith)+
  moreover have "sin earthTiltRad < sin (pi / 2)"
    by (rule sin_monotone_2pi) (use e p in linarith)+
  ultimately show ?thesis by simp
qed


lemma centerSeries_bound: "\<bar>centerSeries M\<bar> \<le> 1.9351"
proof -
  define a where "a = sin M"
  define b where "b = sin (2 * M)"
  define c where "c = sin (3 * M)"
  have "\<bar>a\<bar> \<le> 1" "\<bar>b\<bar> \<le> 1" "\<bar>c\<bar> \<le> 1" by (simp_all add: a_def b_def c_def)
  moreover have "centerSeries M = 1.9148 * a + 0.02 * b + 0.0003 * c"
    by (simp add: centerSeries_def a_def b_def c_def)
  ultimately show ?thesis by simp argo
qed








subsection \<open>The code against the reference algorithm\<close>

lemma toDays_flat: "toDays t = real_of_int t / 86400000 - 0.5 + 2440588 - 2451545"
  by (simp add: toDays_def toJulian_def dayMs_def J1970_def J2000_def)

lemma degToRad_flat: "degToRad x = x * 0.01745329251"
  by (simp add: degToRad_def DEG_TO_RAD_def)

lemma radToDeg_flat: "radToDeg x = x * 57.2957795131"
  by (simp add: radToDeg_def RAD_TO_DEG_def)

lemma getSolarMeanAnomaly_flat:
  "getSolarMeanAnomaly d = 357.5291 * 0.01745329251 + 0.98560028 * 0.01745329251 * d"
  by (simp add: getSolarMeanAnomaly_def degToRad_flat algebra_simps)

lemma getEquationOfCenter_flat:
  "getEquationOfCenter M =
     1.9148 * 0.01745329251 * sin M + 0.02 * 0.01745329251 * sin (2 * M) +
     0.0003 * 0.01745329251 * sin (3 * M)"
  by (simp add: getEquationOfCenter_def degToRad_flat algebra_simps)

lemma getSiderealTime_flat:
  "getSiderealTime d (degToRad (- lo)) =
     280.16 * 0.01745329251 + 360.9856235 * 0.01745329251 * d - (- (lo * 0.01745329251))"
  by (simp add: getSiderealTime_def degToRad_flat algebra_simps)

lemma moon_angles_flat:
  "degToRad (218.316 + 13.176396 * d) = 218.316 * 0.01745329251 + 13.176396 * 0.01745329251 * d"
  "degToRad (134.963 + 13.064993 * d) = 134.963 * 0.01745329251 + 13.064993 * 0.01745329251 * d"
  "degToRad (93.272 + 13.229350 * d) = 93.272 * 0.01745329251 + 13.229350 * 0.01745329251 * d"
  "degToRad (6.289 * x) = 6.289 * 0.01745329251 * x"
  "degToRad (5.128 * x) = 5.128 * 0.01745329251 * x"
  by (simp_all add: degToRad_flat algebra_simps)

lemma getSunPosition_flat:
  "getSunPosition t la lo = sun_reference 0.01745329251 pi 57.2957795131 t la lo"
  unfolding getSunPosition_def sun_reference_def Let_def getSiderealTime_flat toDays_flat
    getSolarMeanAnomaly_flat getEquationOfCenter_flat getEclipticLongitude_def
    getDeclination_def getRightAscension_def getHourAngle_def getSunDistanceAU_def
    getAzAlt_def AU_IN_CM_def azalt.simps
  unfolding earthTiltRad_def radToDeg_flat degToRad_flat
  by (rule refl)

lemma getMoonPosition_flat:
  "getMoonPosition t la lo = moon_reference 0.01745329251 57.2957795131 t la lo"
  unfolding getMoonPosition_def moon_reference_def getMoonCoords_def Let_def
    getSiderealTime_flat toDays_flat moon_angles_flat mooncoords.simps
    getAzAlt_def azalt.simps
  unfolding radToDeg_flat degToRad_flat
  by (rule refl)
lemma sin_lipschitz:
  fixes a b :: real
  shows "\<bar>sin a - sin b\<bar> \<le> \<bar>a - b\<bar>"
proof -
  define s where "s = sin ((a - b) / 2)"
  define c where "c = cos ((a + b) / 2)"
  have e: "sin a - sin b = 2 * s * c" unfolding s_def c_def by (rule sin_diff_sin)
  have s: "\<bar>s\<bar> \<le> \<bar>(a - b) / 2\<bar>" unfolding s_def by (rule abs_sin_x_le_abs_x)
  have c: "\<bar>c\<bar> \<le> 1" unfolding c_def by (rule abs_cos_le_one)
  have "\<bar>s\<bar> * \<bar>c\<bar> \<le> \<bar>(a - b) / 2\<bar> * 1"
    by (rule mult_mono[OF s c]) simp_all
  then have "\<bar>2 * s * c\<bar> \<le> \<bar>a - b\<bar>" by (simp add: abs_mult)
  then show ?thesis unfolding e .
qed

lemma cos_increasing_pi_2pi:
  fixes a b :: real
  assumes "pi \<le> a" "a < b" "b \<le> 2 * pi"
  shows "cos a < cos b"
proof -
  have "cos (a - 2 * pi) < cos (b - 2 * pi)"
    by (rule cos_monotone_minus_pi_0) (use assms in simp_all)
  moreover have "cos (a - 2 * pi) = cos a" "cos (b - 2 * pi) = cos b"
    using cos_periodic[of "a - 2 * pi"] cos_periodic[of "b - 2 * pi"] by simp_all
  ultimately show ?thesis by simp
qed

lemma cos_increasing_3pi_4pi:
  fixes a b :: real
  assumes "3 * pi \<le> a" "a < b" "b \<le> 4 * pi"
  shows "cos a < cos b"
proof -
  have "cos (a - 2 * pi) < cos (b - 2 * pi)"
    by (rule cos_increasing_pi_2pi) (use assms in simp_all)
  moreover have "cos (a - 2 * pi) = cos a" "cos (b - 2 * pi) = cos b"
    using cos_periodic[of "a - 2 * pi"] cos_periodic[of "b - 2 * pi"] by simp_all
  ultimately show ?thesis by simp
qed

lemma centerSeries_lipschitz: "\<bar>centerSeries x - centerSeries y\<bar> \<le> 1.9557 * \<bar>x - y\<bar>"
proof -
  define a where "a = sin x - sin y"
  define b where "b = sin (2 * x) - sin (2 * y)"
  define c where "c = sin (3 * x) - sin (3 * y)"
  define n where "n = \<bar>x - y\<bar>"
  have a: "\<bar>a\<bar> \<le> n" unfolding a_def n_def by (rule sin_lipschitz)
  have "\<bar>b\<bar> \<le> \<bar>2 * x - 2 * y\<bar>" unfolding b_def by (rule sin_lipschitz)
  also have "\<dots> = \<bar>2 * (x - y)\<bar>" by (simp only: right_diff_distrib)
  also have "\<dots> = 2 * n" unfolding n_def abs_mult by simp
  finally have b: "\<bar>b\<bar> \<le> 2 * n" .
  have "\<bar>c\<bar> \<le> \<bar>3 * x - 3 * y\<bar>" unfolding c_def by (rule sin_lipschitz)
  also have "\<dots> = \<bar>3 * (x - y)\<bar>" by (simp only: right_diff_distrib)
  also have "\<dots> = 3 * n" unfolding n_def abs_mult by simp
  finally have c: "\<bar>c\<bar> \<le> 3 * n" .
  have "centerSeries x - centerSeries y = 1.9148 * a + 0.02 * b + 0.0003 * c"
    by (simp add: centerSeries_def a_def b_def c_def field_simps)
  with a b c show ?thesis unfolding n_def[symmetric] by simp argo
qed

lemma sun_distance_differs:
  "distance (sun_reference (pi / 180) pi (180 / pi) noon2000 0 0) <
   distance (sun_reference 0.01745329251 pi 57.2957795131 noon2000 0 0)"
proof -
  define k :: real where "k = 0.01745329251"
  define g :: real where "g = pi / 180"
  define Mc where "Mc = 357.5291 * k"
  define Ms where "Ms = 357.5291 * g"
  define Cc where "Cc = k * centerSeries Mc"
  define Cs where "Cs = g * centerSeries Ms"
  define Ac where "Ac = 2 * Mc + Cc"
  define As where "As = 2 * Ms + Cs"
  have kg: "k < g" using pi_DEG_TO_RAD by (simp add: k_def g_def DEG_TO_RAD_def)
  have k0: "0 < k" "k < 0.0175" by (simp_all add: k_def)
  have g0: "0 < g" by (simp add: g_def)
  have pu: "pi < 3.1416" using pi_upper by simp
  have pl: "3.1415 < pi" using pi_lower by simp
  have pg: "pi = 180 * g" by (simp add: g_def)
  \<comment> \<open>the mean anomalies\<close>
  have M1: "Mc < Ms" using kg by (simp add: Mc_def Ms_def)
  have M2: "pi \<le> Mc" using pu by (simp add: Mc_def k_def)
  have M3: "Ms \<le> 2 * pi" by (simp add: Ms_def g_def)
  have cM: "cos Mc < cos Ms" by (rule cos_increasing_pi_2pi[OF M2 M1 M3])
  \<comment> \<open>the equations of center\<close>
  define hc where "hc = centerSeries Mc"
  define hs where "hs = centerSeries Ms"
  have hcb: "\<bar>hc\<bar> \<le> 1.9351" and hsb: "\<bar>hs\<bar> \<le> 1.9351"
    unfolding hc_def hs_def by (rule centerSeries_bound)+
  have "\<bar>hc - hs\<bar> \<le> 1.9557 * \<bar>Mc - Ms\<bar>"
    unfolding hc_def hs_def by (rule centerSeries_lipschitz)
  also have "\<bar>Mc - Ms\<bar> = 357.5291 * (g - k)" using kg by (simp add: Mc_def Ms_def algebra_simps)
  finally have hd: "\<bar>hc - hs\<bar> \<le> 700 * (g - k)" using kg by simp
  define P where "P = k * (hc - hs)"
  define Q where "Q = (g - k) * hs"
  define e where "e = g - k"
  have e0: "0 < e" using kg by (simp add: e_def)
  have "\<bar>k\<bar> * \<bar>hc - hs\<bar> \<le> 0.0175 * (700 * (g - k))"
    by (rule mult_mono) (use k0 hd kg in simp_all)
  then have t1: "\<bar>P\<bar> \<le> 12.25 * e" by (simp add: P_def e_def abs_mult)
  have "(g - k) * \<bar>hs\<bar> \<le> (g - k) * 1.9351"
    by (rule mult_left_mono[OF hsb]) (use kg in simp)
  then have t2: "\<bar>Q\<bar> \<le> 1.9351 * e"
    using kg by (simp add: Q_def e_def abs_mult)
  have "Cc - Cs = P - Q"
    by (simp add: Cc_def Cs_def hc_def hs_def P_def Q_def algebra_simps)
  with t1 t2 have Cd: "Cc - Cs \<le> 15 * e" by simp
  have Md: "Ms - Mc = 357.5291 * e" by (simp add: Mc_def Ms_def e_def algebra_simps)
  have A1: "Ac < As" using Cd Md e0 unfolding Ac_def As_def by simp
  have "\<bar>k * hc\<bar> \<le> 0.0175 * 1.9351"
    unfolding abs_mult by (rule mult_mono) (use k0 hcb in simp_all)
  then have "\<bar>Cc\<bar> \<le> 0.0175 * 1.9351" by (simp only: Cc_def hc_def)
  then have Ccb: "- 0.04 \<le> Cc" by simp
  have A2: "3 * pi \<le> Ac" using Ccb pu by (simp add: Ac_def Mc_def k_def)
  have "g * \<bar>hs\<bar> \<le> g * 1.9351"
    by (rule mult_left_mono[OF hsb]) (use g0 in simp)
  then have "\<bar>g * hs\<bar> \<le> g * 1.9351"
    using g0 by (simp add: abs_mult)
  then have "\<bar>Cs\<bar> \<le> g * 1.9351" by (simp only: Cs_def hs_def)
  then have Csb: "Cs \<le> 2 * g" using g0 by simp
  have A3: "As \<le> 4 * pi" using Csb g0 unfolding As_def Ms_def pg by simp
  have cA: "cos Ac < cos As" by (rule cos_increasing_3pi_4pi[OF A2 A1 A3])
  \<comment> \<open>the distances\<close>
  have dc: "distance (sun_reference 0.01745329251 pi 57.2957795131 noon2000 0 0) =
        (1.00014 - 0.01671 * cos Mc - 0.00014 * cos Ac) * (1.495978707 * 10 ^ 13)"
    by (simp add: sun_reference_def Let_def noon2000_def Ac_def Cc_def Mc_def k_def
        centerSeries_def algebra_simps)
  have ds: "distance (sun_reference (pi / 180) pi (180 / pi) noon2000 0 0) =
        (1.00014 - 0.01671 * cos Ms - 0.00014 * cos As) * (1.495978707 * 10 ^ 13)"
    by (simp add: sun_reference_def Let_def noon2000_def As_def Cs_def Ms_def g_def
        centerSeries_def algebra_simps)
  from cM cA show ?thesis unfolding dc ds by simp
qed
lemma moon_distance_differs:
  "distance (moon_reference (pi / 180) (180 / pi) noon2000 0 0) \<noteq>
   distance (moon_reference 0.01745329251 57.2957795131 noon2000 0 0)"
proof -
  define Mc :: real where "Mc = 134.963 * 0.01745329251"
  define Ms :: real where "Ms = 134.963 * (pi / 180)"
  have M0: "0 \<le> Mc" by (simp add: Mc_def)
  have M1: "Mc < Ms" using pi_DEG_TO_RAD by (simp add: Mc_def Ms_def DEG_TO_RAD_def)
  have M2: "Ms \<le> pi" by (simp add: Ms_def)
  have c: "cos Ms < cos Mc" by (rule cos_monotone_0_pi[OF M0 M1 M2])
  have dc: "distance (moon_reference 0.01745329251 57.2957795131 noon2000 0 0) =
        (385001 - 20905 * cos Mc) * 100000"
    by (simp add: moon_reference_def Let_def noon2000_def Mc_def)
  have ds: "distance (moon_reference (pi / 180) (180 / pi) noon2000 0 0) =
        (385001 - 20905 * cos Ms) * 100000"
    by (simp add: moon_reference_def Let_def noon2000_def Ms_def)
  from c show ?thesis unfolding dc ds by simp
qed


text \<open>
  Claim C1, as amended. For every instant, latitude and longitude \<open>getSunPosition\<close>
  equals the reference algorithm in which a degree is \<open>0.01745329251\<close> radians (the
  constant \<open>DEG_TO_RAD\<close>, less than \<open>pi / 180\<close>), the half turn in the ecliptic longitude
  is \<open>pi\<close> itself (\<open>Math.PI\<close>), a radian is \<open>57.2957795131\<close> degrees (\<open>RAD_TO_DEG\<close>,
  more than \<open>180 / pi\<close>) and the remainder is that of JavaScript.
\<close>

theorem sun_position_is_reference_with_code_constants:
  "getSunPosition t la lo = sun_reference 0.01745329251 pi 57.2957795131 t la lo"
  by (rule getSunPosition_flat)

text \<open>
  Claim C1 as stated fails when a degree is \<open>pi / 180\<close> radians: at noon of 2000-01-01
  UTC, latitude 0, longitude 0, the reference algorithm gives a smaller distance of the
  Sun than the code.
\<close>

theorem sun_position_differs_from_exact_reference:
  "getSunPosition 946728000000 0 0 \<noteq> sun_reference (pi / 180) pi (180 / pi) 946728000000 0 0"
proof
  assume "getSunPosition 946728000000 0 0 = sun_reference (pi / 180) pi (180 / pi) 946728000000 0 0"
  then have "distance (sun_reference 0.01745329251 pi 57.2957795131 noon2000 0 0) =
             distance (sun_reference (pi / 180) pi (180 / pi) noon2000 0 0)"
    by (simp add: getSunPosition_flat noon2000_def)
  with sun_distance_differs show False by simp
qed

text \<open>
  Reading every degree of the formulas as \<open>0.01745329251\<close> radians, the half turn in
  the ecliptic longitude included, does not give the code either: the code adds \<open>pi\<close>,
  which is more than \<open>180 * 0.01745329251\<close>. On the equator, at the longitude where the
  code has the hour angle \<open>2 * pi\<close> at noon of 2000-01-01 UTC, the altitudes differ.
\<close>

lemma sun_reference_altitude_equator:
  fixes k R ra0 :: real
  assumes k: "k \<noteq> 0"
  shows "altitude (sun_reference k hf R 946728000000 0 ((ra0 - 280.16 * k) / k)) =
         arcsin (cos (arcsin (sin (357.5291 * k + k * centerSeries (357.5291 * k) + 102.9372 * k + hf)
                                * sin (23.44 * k))) *
                 cos (ra0 - Math_atan2
                        (sin (357.5291 * k + k * centerSeries (357.5291 * k) + 102.9372 * k + hf)
                          * cos (23.44 * k))
                        (cos (357.5291 * k + k * centerSeries (357.5291 * k) + 102.9372 * k + hf)))) * R"
proof -
  have th: "280.16 * k + 360.9856235 * k * 0 - (- ((ra0 - 280.16 * k) / k * k)) = ra0"
    using k by simp
  have C: "1.9148 * k * sin M + 0.02 * k * sin (2 * M) + 0.0003 * k * sin (3 * M) = k * centerSeries M" for M
    by (simp add: centerSeries_def algebra_simps)
  have d: "real_of_int 946728000000 / 86400000 - 0.5 + 2440588 - 2451545 = (0::real)" by simp
  have M: "357.5291 * k + 0.98560028 * k * 0 = 357.5291 * k" by simp
  show ?thesis
    unfolding sun_reference_def Let_def d M C th by simp
qed


lemma sin_increasing_near_4pi:
  fixes a b :: real
  assumes "7 * pi / 2 \<le> a" "a < b" "b \<le> 4 * pi"
  shows "sin a < sin b \<and> sin b \<le> 0"
proof -
  have "sin (a - 4 * pi) < sin (b - 4 * pi)"
    by (rule sin_monotone_2pi) (use assms in simp_all)
  moreover have "sin (b - 4 * pi) \<le> sin 0"
    by (rule sin_monotone_2pi_le) (use assms in simp_all)
  moreover have "sin (x - 4 * pi) = sin x" for x :: real
    using sin_periodic[of "x - 4 * pi"] sin_periodic[of "x - 4 * pi + 2 * pi"]
    by (simp add: algebra_simps)
  ultimately show ?thesis by simp
qed

lemma sun_altitude_differs_uniform:
  "altitude (sun_reference 0.01745329251 (180 * 0.01745329251) 57.2957795131
               946728000000 0 zenith_long) <
   altitude (sun_reference 0.01745329251 pi 57.2957795131 946728000000 0 zenith_long)"
proof -
  define k :: real where "k = 0.01745329251"
  define R :: real where "R = 57.2957795131"
  define base where "base = 357.5291 * k + k * centerSeries (357.5291 * k) + 102.9372 * k"
  define Lc where "Lc = base + pi"
  define Lu where "Lu = base + 180 * k"
  define s where "s = sin (23.44 * k)"
  define dc where "dc = arcsin (sin Lc * s)"
  define du where "du = arcsin (sin Lu * s)"
  define ra0 where "ra0 = Math_atan2 (sin Lc * cos (23.44 * k)) (cos Lc)"
  define rau where "rau = Math_atan2 (sin Lu * cos (23.44 * k)) (cos Lu)"
  have k0: "k \<noteq> 0" by (simp add: k_def)
  have R0: "0 < R" by (simp add: R_def)
  have pu: "pi < 3.14159265359" by (rule pi_upper)
  have pl: "3.1415926535897 < pi" by (rule pi_lower)
  \<comment> \<open>the two ecliptic longitudes\<close>
  define c0 where "c0 = k * centerSeries (357.5291 * k)"
  have "\<bar>c0\<bar> = k * \<bar>centerSeries (357.5291 * k)\<bar>"
    by (simp add: c0_def abs_mult k_def)
  also have "\<dots> \<le> k * 1.9351"
    by (rule mult_left_mono[OF centerSeries_bound]) (simp add: k_def)
  also have "\<dots> \<le> 0.034" by (simp add: k_def)
  finally have c0: "\<bar>c0\<bar> \<le> 0.034" .
  have "base = 8.036653024897413 + c0" by (simp add: base_def c0_def k_def)
  with c0 have b: "8 \<le> base" "base \<le> 8.08" by simp_all
  have L1: "Lu < Lc" using pl by (simp add: Lu_def Lc_def k_def)
  have L2: "7 * pi / 2 \<le> Lu" using b(1) pu by (simp add: Lu_def k_def)
  have L3: "Lc \<le> 4 * pi" using b(2) pl by (simp add: Lc_def)
  from sin_increasing_near_4pi[OF L2 L1 L3] have sL: "sin Lu < sin Lc" "sin Lc \<le> 0" by simp_all
  \<comment> \<open>the two declinations\<close>
  have s: "0 < s" "s < 1" using earthTilt_sin
    by (simp_all add: s_def earthTiltRad_def degToRad_def DEG_TO_RAD_def k_def)
  define xc where "xc = sin Lc * s"
  define xu where "xu = sin Lu * s"
  have x1: "xu < xc" unfolding xu_def xc_def by (rule mult_strict_right_mono[OF sL(1) s(1)])
  have x2: "xc \<le> 0" unfolding xc_def using sL(2) s(1) by (simp add: mult_nonpos_nonneg)
  have "(- 1) * s \<le> sin Lu * s" by (rule mult_right_mono) (use s in simp_all)
  then have x3: "- 1 < xu" using s by (simp add: xu_def)
  have d1: "du < dc" unfolding du_def dc_def xu_def[symmetric] xc_def[symmetric]
    by (rule arcsin_less_arcsin) (use x1 x2 x3 in simp_all)
  have "dc \<le> arcsin 0" unfolding dc_def xc_def[symmetric]
    by (rule arcsin_le_arcsin) (use x1 x2 x3 in simp_all)
  then have d2: "dc \<le> 0" by simp
  have "- (pi / 2) < du \<and> du < pi / 2" unfolding du_def xu_def[symmetric]
    by (rule arcsin_lt_bounded) (use x1 x2 x3 in simp_all)
  then have d3: "- (pi / 2) < du" by simp
  have c1: "cos du < cos dc"
    by (rule cos_monotone_minus_pi_0) (use d1 d2 d3 in simp_all)
  have c2: "0 < cos du" by (rule cos_gt_zero_pi) (use d1 d2 d3 in simp_all)
  \<comment> \<open>the two altitudes\<close>
  define h where "h = cos (ra0 - rau)"
  define cu where "cu = cos du"
  have h: "- 1 \<le> h" "h \<le> 1" by (simp_all add: h_def)
  have cu: "0 < cu" "cu \<le> 1" using c2 by (simp_all add: cu_def)
  define yu where "yu = cu * h"
  have "cu * h \<le> cu * 1" by (rule mult_left_mono) (use h cu in simp_all)
  then have y1: "yu \<le> cu" by (simp add: yu_def)
  have "cu * (- 1) \<le> cu * h" by (rule mult_left_mono) (use h cu in simp_all)
  then have "- cu \<le> yu" by (simp add: yu_def)
  with cu have y2: "- 1 \<le> yu" by linarith
  have y3: "yu < cos dc" using y1 c1 by (simp add: cu_def)
  have a: "arcsin yu < arcsin (cos dc)"
    by (rule arcsin_less_arcsin) (use y2 y3 in simp_all)
  have hp: "cos (ra0 + 2 * pi - rau) = h"
    using cos_periodic[of "ra0 - rau"] by (simp add: h_def algebra_simps)
  have zl: "zenith_long = (ra0 + 2 * pi - 280.16 * k) / k"
    by (simp add: zenith_long_def ra0_def getRightAscension_def sunL0_def
        getEclipticLongitude_def getSolarMeanAnomaly_def getEquationOfCenter_def
        earthTiltRad_def degToRad_def DEG_TO_RAD_def Lc_def base_def k_def centerSeries_def
        algebra_simps)
  have ac: "altitude (sun_reference 0.01745329251 pi 57.2957795131 946728000000 0 zenith_long) =
            arcsin (cos dc) * R"
    unfolding zl k_def[symmetric] R_def[symmetric]
    unfolding sun_reference_altitude_equator[OF k0] base_def[symmetric] Lc_def[symmetric]
      s_def[symmetric] dc_def[symmetric] ra0_def[symmetric]
    by simp
  have au: "altitude (sun_reference 0.01745329251 (180 * 0.01745329251) 57.2957795131
               946728000000 0 zenith_long) = arcsin yu * R"
    unfolding zl k_def[symmetric] R_def[symmetric]
    unfolding sun_reference_altitude_equator[OF k0] base_def[symmetric] Lu_def[symmetric]
      s_def[symmetric] du_def[symmetric] rau_def[symmetric] hp
      cu_def[symmetric] yu_def[symmetric]
    by simp
  show ?thesis unfolding ac au using a R0 by simp
qed

lemma sun_position_differs_from_code_degree_reference:
  "getSunPosition 946728000000 0 zenith_long \<noteq>
   sun_reference 0.01745329251 (180 * 0.01745329251) 57.2957795131 946728000000 0 zenith_long"
proof
  assume "getSunPosition 946728000000 0 zenith_long =
    sun_reference 0.01745329251 (180 * 0.01745329251) 57.2957795131 946728000000 0 zenith_long"
  then have "altitude (sun_reference 0.01745329251 pi 57.2957795131 946728000000 0 zenith_long) =
    altitude (sun_reference 0.01745329251 (180 * 0.01745329251) 57.2957795131
                946728000000 0 zenith_long)"
    by (simp only: getSunPosition_flat)
  with sun_altitude_differs_uniform show False by simp
qed

text \<open>
  Claim C2, as amended. For every instant, latitude and longitude \<open>getMoonPosition\<close>
  equals the reference algorithm in which a degree is \<open>0.01745329251\<close> radians, a
  radian is \<open>57.2957795131\<close> degrees and the remainder is that of JavaScript.
\<close>

theorem moon_position_is_reference_with_code_constants:
  "getMoonPosition t la lo = moon_reference 0.01745329251 57.2957795131 t la lo"
  by (rule getMoonPosition_flat)

text \<open>
  Claim C2 as stated fails when a degree is \<open>pi / 180\<close> radians: at noon of 2000-01-01
  UTC, latitude 0, longitude 0, the reference algorithm gives another distance of the
  Moon than the code.
\<close>

theorem moon_position_differs_from_exact_reference:
  "getMoonPosition 946728000000 0 0 \<noteq> moon_reference (pi / 180) (180 / pi) 946728000000 0 0"
proof
  assume "getMoonPosition 946728000000 0 0 = moon_reference (pi / 180) (180 / pi) 946728000000 0 0"
  then have "distance (moon_reference 0.01745329251 57.2957795131 noon2000 0 0) =
             distance (moon_reference (pi / 180) (180 / pi) noon2000 0 0)"
    by (simp add: getMoonPosition_flat noon2000_def)
  with moon_distance_differs show False by simp
qed

end
